theory Spec2Isabelle
  imports Complex_Main
begin

section \<open>JavaScript numbers\<close>

text \<open>
  The ledger logic of the back office lives in two Express routers:
  \<^verbatim>\<open>routes/debtorRoutes.js\<close> (create, pay, edit and delete a debt) and the transaction
  router (cash-in, cash-out, delete, list and monthly statistics). Each handler is embedded
  as a function from the request and the database to the new database and the response.

  An amount is a JavaScript Number: an IEEE 754 binary64 value. The finite ones are the reals
  \<open>m * 2 ^ e\<close> with an integer \<open>m\<close> of less than 53 bits and \<open>e\<close> from -1074 to 971. The
  two zeros are not told apart: the handlers never divide, and no comparison or JSON output
  sees the sign of a zero.
\<close>

definition pow2 :: "int \<Rightarrow> real" where
  "pow2 e = 2 powr of_int e"

definition is_double :: "real \<Rightarrow> bool" where
  "is_double x =
     (\<exists>m e :: int. x = of_int m * pow2 e \<and> \<bar>m\<bar> < 2 ^ 53 \<and> - 1074 \<le> e \<and> e \<le> 971)"

typedef double = "{x. is_double x}"
proof
  have "(0::real) = of_int 0 * pow2 0 \<and> \<bar>0::int\<bar> < 2 ^ 53 \<and> - 1074 \<le> (0::int) \<and> (0::int) \<le> 971"
    by simp
  then show "0 \<in> {x. is_double x}"
    unfolding is_double_def mem_Collect_eq by blast
qed

text \<open>
  A Number other than \<open>NaN\<close>, which is what a JSON body can hold and what the database
  stores; and a Number.
\<close>

datatype number = NegInf | Fin double | PosInf

datatype jsnum = NaN | Num number

text \<open>
  Rounding to nearest, ties to even: the exponent of \<open>x\<close> (held at -1022 for the subnormal
  range) fixes the spacing \<open>2 ^ (exponent - 52)\<close> of the doubles around \<open>x\<close>, and \<open>x\<close> goes to
  the nearest multiple of it; the result overflows to an infinity from \<open>2 ^ 1024\<close> on.
\<close>

definition round_even :: "real \<Rightarrow> int" where
  "round_even q =
     (let f = \<lfloor>q\<rfloor> in
      if q - of_int f < 1 / 2 then f
      else if 1 / 2 < q - of_int f then f + 1
      else if even f then f else f + 1)"

definition exponent :: "real \<Rightarrow> int" where
  "exponent x = max \<lfloor>log 2 \<bar>x\<bar>\<rfloor> (- 1022)"

definition nearest :: "real \<Rightarrow> real" where
  "nearest x = of_int (round_even (x / pow2 (exponent x - 52))) * pow2 (exponent x - 52)"

definition rnd :: "real \<Rightarrow> number" where
  "rnd x =
     (if x = 0 then Fin (Abs_double 0)
      else if pow2 1024 \<le> nearest x then PosInf
      else if nearest x \<le> - pow2 1024 then NegInf
      else Fin (Abs_double (nearest x)))"

text \<open>The Number that an integer literal denotes.\<close>

definition num :: "int \<Rightarrow> number" where
  "num k = rnd (of_int k)"

text \<open>\<^verbatim>\<open>a + b\<close> on Numbers\<close>

fun js_add :: "jsnum \<Rightarrow> jsnum \<Rightarrow> jsnum" where
  "js_add (Num (Fin x)) (Num (Fin y)) = Num (rnd (Rep_double x + Rep_double y))"
| "js_add (Num PosInf) (Num NegInf) = NaN"
| "js_add (Num NegInf) (Num PosInf) = NaN"
| "js_add (Num PosInf) (Num b) = Num PosInf"
| "js_add (Num a) (Num PosInf) = Num PosInf"
| "js_add (Num NegInf) (Num b) = Num NegInf"
| "js_add (Num a) (Num NegInf) = Num NegInf"
| "js_add NaN b = NaN"
| "js_add a NaN = NaN"

text \<open>\<^verbatim>\<open>a - b\<close>\<close>

fun js_sub :: "jsnum \<Rightarrow> jsnum \<Rightarrow> jsnum" where
  "js_sub (Num (Fin x)) (Num (Fin y)) = Num (rnd (Rep_double x - Rep_double y))"
| "js_sub (Num PosInf) (Num PosInf) = NaN"
| "js_sub (Num NegInf) (Num NegInf) = NaN"
| "js_sub (Num PosInf) (Num b) = Num PosInf"
| "js_sub (Num NegInf) (Num b) = Num NegInf"
| "js_sub (Num a) (Num PosInf) = Num NegInf"
| "js_sub (Num a) (Num NegInf) = Num PosInf"
| "js_sub NaN b = NaN"
| "js_sub a NaN = NaN"

text \<open>\<^verbatim>\<open>a < b\<close> on Numbers other than \<open>NaN\<close>, and on all of them: false with a \<open>NaN\<close>.\<close>

fun lt :: "number \<Rightarrow> number \<Rightarrow> bool" where
  "lt (Fin x) (Fin y) = (Rep_double x < Rep_double y)"
| "lt a NegInf = False"
| "lt NegInf b = True"
| "lt PosInf b = False"
| "lt a PosInf = True"

fun js_lt :: "jsnum \<Rightarrow> jsnum \<Rightarrow> bool" where
  "js_lt (Num a) (Num b) = lt a b"
| "js_lt a b = False"

text \<open>\<^verbatim>\<open>Math.max(a, b)\<close>\<close>

fun js_max :: "jsnum \<Rightarrow> jsnum \<Rightarrow> jsnum" where
  "js_max (Num a) (Num b) = (if lt a b then Num b else Num a)"
| "js_max a b = NaN"

text \<open>\<^verbatim>\<open>x || 0\<close> for a number \<open>x\<close>: the falsy numbers are \<open>NaN\<close> and \<open>0\<close>.\<close>

fun or0 :: "jsnum \<Rightarrow> number" where
  "or0 NaN = num 0"
| "or0 (Num n) = (if n = num 0 then num 0 else n)"

section \<open>JavaScript values\<close>

text \<open>A field of a parsed JSON body, or \<open>undefined\<close> when the body does not have it.\<close>

datatype jsval =
    JUndefined
  | JNull
  | JBool bool
  | JNumber jsnum
  | JString string
  | JObject

text \<open>\<^verbatim>\<open>!v\<close>\<close>

fun falsy :: "jsval \<Rightarrow> bool" where
  "falsy JUndefined = True"
| "falsy JNull = True"
| "falsy (JBool b) = (\<not> b)"
| "falsy (JNumber x) = (x = NaN \<or> x = Num (num 0))"
| "falsy (JString s) = (s = [])"
| "falsy JObject = False"

text \<open>\<^verbatim>\<open>typeof v\<close>\<close>

fun typeof :: "jsval \<Rightarrow> string" where
  "typeof JUndefined = ''undefined''"
| "typeof JNull = ''object''"
| "typeof (JBool b) = ''boolean''"
| "typeof (JNumber n) = ''number''"
| "typeof (JString s) = ''string''"
| "typeof JObject = ''object''"

text \<open>
  A Date, in UTC: the whole calendar months since January of year 0, and the milliseconds
  into that month. So the UTC year is \<open>months div 12\<close> and MongoDB's \<^verbatim>\<open>$month\<close> is
  \<open>months mod 12 + 1\<close>, always one of 1..12.
\<close>

record jsdate =
  months :: int
  millis :: nat

definition utc_year :: "jsdate \<Rightarrow> int" where
  "utc_year d = months d div 12"

definition month_of :: "jsdate \<Rightarrow> nat" where
  "month_of d = nat (months d mod 12) + 1"

section \<open>Documents\<close>

text \<open>
  Modelled from the spec: the Client schema (\<^verbatim>\<open>models/clients/client.model.js\<close>, which the
  routers require). The handlers touch one field of a client, the scalar \<open>debt\<close>, a signed
  Number with no bound. Mongoose casts what is assigned to a Number path: a numeric string
  becomes the number it denotes, an infinity is kept, and \<open>NaN\<close> is refused, after which
  \<^verbatim>\<open>save()\<close> throws (as an update with \<^verbatim>\<open>$set\<close> does). So the database holds no
  \<open>NaN\<close>, and each handler below has a case for the \<open>NaN\<close> that it cannot write.
\<close>

record client =
  debt :: number

record lastPayment =
  lp_amount :: number
  lp_date :: jsdate

record nextPayment =
  np_amount :: "number option"
  np_dueDate :: "jsdate option"

text \<open>
  Modelled from the spec: the Debtor schema (\<^verbatim>\<open>models/debtors/debtor.model.js\<close>, which the
  routers require): the fields below, \<open>status\<close> defaulting to \<open>pending\<close> and \<open>isDeleted\<close>
  to \<open>false\<close>. Its amounts are Number paths with no bound, cast as a client's \<open>debt\<close> is.
  The free text \<open>description\<close> plays no part in the ledger and is left out of the model.
\<close>

record debtor =
  client :: nat
  currentDebt :: number
  initialDebt :: number
  initialDebtDate :: jsdate
  totalPaid :: number
  lastPayment :: "lastPayment option"
  nextPayment :: nextPayment
  status :: string
  isDeleted :: bool
  deletedAt :: "jsdate option"

text \<open>
  Modelled from the spec: \<^verbatim>\<open>withBaseFields\<close> (\<^verbatim>\<open>models/base.model.js\<close>), which wraps the
  schema of \<^verbatim>\<open>models/transactions/transaction.model.js\<close> and adds the soft-delete flag and
  the timestamps; the router reads \<open>isDeleted\<close> and \<open>createdAt\<close>. The other fields are the
  schema's own.
\<close>

record transaction =
  tid :: nat
  tx_type :: string
  amount :: number
  paymentType :: string
  relatedModel :: "string option"
  relatedId :: "nat option"
  tx_client :: "nat option"
  createdBy :: "nat option"
  createdAt :: jsdate
  tx_isDeleted :: bool

datatype log_line = TransactionError | LoggedId nat

text \<open>
  The database and the console. A debtor is never removed from its collection (deleting one
  sets a flag), so a debtor's \<open>_id\<close> is its position in the collection. A transaction can be
  removed, so it carries its \<open>_id\<close>, drawn from a counter.
\<close>

record store =
  clients :: "nat \<rightharpoonup> client"
  debtors :: "debtor list"
  transactions :: "transaction list"
  next_tid :: nat
  console :: "log_line list"

text \<open>
  The bodies of the answers; \<open>ErrorMessage\<close> is \<^verbatim>\<open>{ message: error.message }\<close>, for an
  error that the handler caught.
\<close>

datatype json =
    Errors
  | Message string
  | DebtorJson nat debtor "client option"
  | TransactionJson transaction
  | TransactionsJson "(transaction \<times> client option) list"
  | MonthlyJson "jsnum list" "jsnum list"
  | ErrorMessage
  | Null

record response =
  code :: nat
  body :: json

text \<open>
  What a handler sees besides the request body and the database: the clock (\<open>now\<close>, and
  \<open>local_year\<close> for \<^verbatim>\<open>new Date().getFullYear()\<close>, the year in the server's time zone), the
  authenticated user, whether the database takes an insert into the ledger, and three
  operations of the runtime and of the database that the model does not define:
  \<open>to_string\<close> is the conversion of a Number to a String, \<open>to_number\<close> is \<^verbatim>\<open>Number(s)\<close>
  for a String, and \<open>sum_acc\<close> is MongoDB's \<^verbatim>\<open>$sum\<close> accumulator, applied to the amounts
  of a group in the order the pipeline meets them.
\<close>

record env =
  now :: jsdate
  local_year :: int
  user :: "nat option"
  insert_ok :: bool
  to_string :: "number \<Rightarrow> string"
  to_number :: "string \<Rightarrow> jsnum"
  sum_acc :: "number list \<Rightarrow> jsnum"

section \<open>Queries and writes\<close>

text \<open>\<^verbatim>\<open>Debtor.findOne({ _id: id, isDeleted: false })\<close>\<close>

definition findOne_active :: "store \<Rightarrow> nat \<Rightarrow> debtor option" where
  "findOne_active st i =
     (if i < length (debtors st) \<and> \<not> isDeleted (debtors st ! i)
      then Some (debtors st ! i) else None)"

text \<open>\<^verbatim>\<open>debtor.save()\<close> of a document read from the collection\<close>

definition save_debtor :: "nat \<Rightarrow> debtor \<Rightarrow> store \<Rightarrow> store" where
  "save_debtor i d st = st\<lparr>debtors := (debtors st)[i := d]\<rparr>"

text \<open>\<^verbatim>\<open>Debtor.findById(id).populate("client")\<close>\<close>

definition populate :: "store \<Rightarrow> nat \<Rightarrow> json" where
  "populate st i =
     (if i < length (debtors st)
      then DebtorJson i (debtors st ! i) (clients st (client (debtors st ! i)))
      else Null)"

text \<open>\<^verbatim>\<open>clientDoc.debt = v; await clientDoc.save()\<close>, for a \<open>v\<close> that is not \<open>NaN\<close>\<close>

definition save_client :: "nat \<Rightarrow> client \<Rightarrow> number \<Rightarrow> store \<Rightarrow> store" where
  "save_client c clientDoc v st = st\<lparr>clients := (clients st)(c \<mapsto> clientDoc\<lparr>debt := v\<rparr>)\<rparr>"

text \<open>\<^verbatim>\<open>Client.findByIdAndUpdate(id, { $set: { debt: v } })\<close>, for such a \<open>v\<close>\<close>

definition set_debt :: "nat \<Rightarrow> number \<Rightarrow> store \<Rightarrow> store" where
  "set_debt c v st =
     (case clients st c of
        None \<Rightarrow> st
      | Some cl \<Rightarrow> st\<lparr>clients := (clients st)(c \<mapsto> cl\<lparr>debt := v\<rparr>)\<rparr>)"

text \<open>
  The fields a handler passes to \<^verbatim>\<open>Transaction.create\<close>, the amount as the Number cast
  reads it.
\<close>

record tx_fields =
  f_type :: string
  f_amount :: jsnum
  f_paymentType :: "string option"
  f_relatedModel :: "string option"
  f_relatedId :: "nat option"
  f_client :: "nat option"
  f_createdBy :: "nat option"

datatype error = ValidationError | WriteError

definition type_enum :: "string list" where
  "type_enum = [''cash-in'', ''cash-out'', ''order'', ''debt-payment'', ''debt-created'']"

definition paymentType_enum :: "string list" where
  "paymentType_enum = [''cash'', ''card'', ''debt'']"

definition relatedModel_enum :: "string list" where
  "relatedModel_enum = [''Order'', ''Debtor'']"

text \<open>The schema's validators: the enums, \<open>required\<close>, the Number cast and \<open>min: 0\<close>.\<close>

definition schema_valid :: "tx_fields \<Rightarrow> bool" where
  "schema_valid f =
     (f_type f \<in> set type_enum \<and>
      (case f_amount f of NaN \<Rightarrow> False | Num a \<Rightarrow> \<not> lt a (num 0)) \<and>
      (case f_paymentType f of None \<Rightarrow> False | Some p \<Rightarrow> p \<in> set paymentType_enum) \<and>
      (case f_relatedModel f of None \<Rightarrow> True | Some m \<Rightarrow> m \<in> set relatedModel_enum))"

text \<open>
  \<^verbatim>\<open>Transaction.create(fields)\<close>: it throws when the schema rejects the fields or when the
  database does not take the insert (\<open>insert_ok\<close> is false); otherwise the new document is
  appended to the collection.
\<close>

definition Transaction_create :: "env \<Rightarrow> tx_fields \<Rightarrow> store \<Rightarrow> error + transaction \<times> store" where
  "Transaction_create e f st =
     (case (f_amount f, f_paymentType f) of
        (Num a, Some p) \<Rightarrow>
          if \<not> schema_valid f then Inl ValidationError
          else if \<not> insert_ok e then Inl WriteError
          else
            let t = \<lparr>tid = next_tid st, tx_type = f_type f, amount = a,
                     paymentType = p, relatedModel = f_relatedModel f,
                     relatedId = f_relatedId f, tx_client = f_client f,
                     createdBy = f_createdBy f, createdAt = now e, tx_isDeleted = False\<rparr>
            in Inr (t, st\<lparr>transactions := transactions st @ [t],
                           next_tid := Suc (next_tid st)\<rparr>)
      | _ \<Rightarrow> Inl ValidationError)"

text \<open>
  The inner \<^verbatim>\<open>try { await Transaction.create(...) } catch (e) { console.error(...) }\<close> of
  the two debt handlers: a failure is written to the console and goes no further.
\<close>

definition try_create :: "env \<Rightarrow> tx_fields \<Rightarrow> store \<Rightarrow> store" where
  "try_create e f st =
     (case Transaction_create e f st of
        Inr (t, st') \<Rightarrow> st'
      | Inl err \<Rightarrow> st\<lparr>console := console st @ [TransactionError]\<rparr>)"

section \<open>The debtor router\<close>

subsection \<open>POST /debtors\<close>

text \<open>
  A numeric field of the body. \<^verbatim>\<open>isNumeric\<close> validates without converting, so the
  handler receives what the JSON held: a number, or a string of digits such as \<open>"1000"\<close>.
\<close>

datatype numeric = BNum number | BStr string

text \<open>
  The body: \<open>client\<close> an id, \<open>currentDebt\<close>, and the optional \<open>initialDebt\<close> and
  \<open>nextPayment\<close> (\<open>None\<close> when the body does not have them; the amount of
  \<open>nextPayment\<close> as the Number cast reads it). \<open>errors_empty\<close> is what
  \<^verbatim>\<open>validationResult(req).isEmpty()\<close> returns; the validation chain runs before the handler
  and is not part of the model.
\<close>

record create_body =
  errors_empty :: bool
  b_client :: nat
  b_currentDebt :: numeric
  b_initialDebt :: "numeric option"
  b_nextPayment :: "nextPayment option"

text \<open>The Number cast of a numeric field: a string goes through \<^verbatim>\<open>Number\<close>.\<close>

fun cast :: "env \<Rightarrow> numeric \<Rightarrow> jsnum" where
  "cast e (BNum n) = Num n"
| "cast e (BStr s) = to_number e s"

text \<open>
  \<^verbatim>\<open>(clientDoc.debt || 0) + (currentDebt || 0)\<close>, as the Number cast of \<open>debt\<close> reads it.
  With a number on the right \<open>+\<close> adds; with a string it concatenates the left number,
  written out, and the string (an empty string is falsy and counts as the number 0).
\<close>

fun plus_body :: "env \<Rightarrow> number \<Rightarrow> numeric \<Rightarrow> jsnum" where
  "plus_body e debt0 (BNum n) = js_add (Num (or0 (Num debt0))) (Num (or0 (Num n)))"
| "plus_body e debt0 (BStr s) =
     (if s = [] then js_add (Num (or0 (Num debt0))) (Num (num 0))
      else to_number e (to_string e (or0 (Num debt0)) @ s))"

text \<open>
  \<^verbatim>\<open>new Debtor({ client, currentDebt, initialDebt, ..., totalPaid: 0, ... })\<close>, or \<open>None\<close>
  when the cast of \<open>currentDebt\<close> or of \<open>initialDebt\<close> fails, so that
  \<^verbatim>\<open>debtor.save()\<close> throws.
\<close>

definition new_debtor :: "env \<Rightarrow> create_body \<Rightarrow> debtor option" where
  "new_debtor e b =
     (case (cast e (b_currentDebt b),
            case b_initialDebt b of None \<Rightarrow> cast e (b_currentDebt b) | Some v \<Rightarrow> cast e v) of
        (Num c, Num i) \<Rightarrow>
          Some \<lparr>client = b_client b, currentDebt = c, initialDebt = i,
                initialDebtDate = now e, totalPaid = num 0, lastPayment = None,
                nextPayment = (case b_nextPayment b of
                                 None \<Rightarrow> \<lparr>np_amount = None, np_dueDate = None\<rparr>
                               | Some np \<Rightarrow> np),
                status = ''pending'', isDeleted = False, deletedAt = None\<rparr>
      | _ \<Rightarrow> None)"

text \<open>The ledger entry of the new debt; \<open>i\<close> is the debtor's \<open>_id\<close>.\<close>

definition debt_created :: "env \<Rightarrow> create_body \<Rightarrow> nat \<Rightarrow> tx_fields" where
  "debt_created e b i =
     \<lparr>f_type = ''debt-created'', f_amount = cast e (b_currentDebt b),
      f_paymentType = Some ''debt'', f_relatedModel = Some ''Debtor'', f_relatedId = Some i,
      f_client = Some (b_client b), f_createdBy = user e\<rparr>"

definition post_debtors :: "env \<Rightarrow> create_body \<Rightarrow> store \<Rightarrow> store \<times> response" where
  "post_debtors e b st =
     (if \<not> errors_empty b then (st, \<lparr>code = 400, body = Errors\<rparr>)
      else
        case clients st (b_client b) of
          None \<Rightarrow> (st, \<lparr>code = 404, body = Message ''Mijoz topilmadi''\<rparr>)
        | Some clientExists \<Rightarrow>
            (case new_debtor e b of
               None \<Rightarrow> (st, \<lparr>code = 500, body = ErrorMessage\<rparr>)
             | Some d \<Rightarrow>
                 let i = length (debtors st);
                     st1 = st\<lparr>debtors := debtors st @ [d]\<rparr>;
                     st2 = try_create e (debt_created e b i) st1
                 in case clients st2 (b_client b) of
                      None \<Rightarrow> (st2, \<lparr>code = 201, body = populate st2 i\<rparr>)
                    | Some clientDoc \<Rightarrow>
                        (case plus_body e (debt clientDoc) (b_currentDebt b) of
                           NaN \<Rightarrow> (st2, \<lparr>code = 500, body = ErrorMessage\<rparr>)
                         | Num v \<Rightarrow>
                             let st3 = save_client (b_client b) clientDoc v st2
                             in (st3, \<lparr>code = 201, body = populate st3 i\<rparr>))))"

subsection \<open>POST /debtors/:id/payment\<close>

text \<open>
  \<open>payment\<close> is the body's field as it arrives; \<open>pay_next\<close> is \<open>None\<close> when
  \<open>nextPayment\<close> is falsy, and otherwise holds \<^verbatim>\<open>Number(nextPayment.amount)\<close> and the
  due date. What passes the handler's guard is a number other than \<open>0\<close> and \<open>NaN\<close> (an
  infinity passes), so the last case of \<open>post_payment\<close> is never reached.
\<close>

record payment_body =
  payment :: jsval
  pay_next :: "(jsnum \<times> jsdate option) option"

text \<open>
  The four assignments to the document, for a payment \<open>p\<close>; \<open>None\<close> when the new
  \<open>currentDebt\<close> or the new \<open>totalPaid\<close> is \<open>NaN\<close>, so that \<^verbatim>\<open>debtor.save()\<close> throws.
\<close>

definition paid :: "env \<Rightarrow> payment_body \<Rightarrow> number \<Rightarrow> debtor \<Rightarrow> debtor option" where
  "paid e b p d =
     (case (js_max (Num (num 0)) (js_sub (Num (currentDebt d)) (Num p)),
            js_add (Num (totalPaid d)) (Num p)) of
        (Num c, Num t) \<Rightarrow>
          let d1 = d\<lparr>currentDebt := c\<rparr>;
              d2 = d1\<lparr>totalPaid := t\<rparr>;
              d3 = d2\<lparr>lastPayment := Some \<lparr>lp_amount = p, lp_date = now e\<rparr>\<rparr>
          in Some (case pay_next b of
                     None \<Rightarrow> d3
                   | Some (a, due) \<Rightarrow>
                       d3\<lparr>nextPayment := \<lparr>np_amount = Some (or0 a), np_dueDate = due\<rparr>\<rparr>)
      | _ \<Rightarrow> None)"

text \<open>The ledger entry of the payment; \<open>i\<close> is the debtor's \<open>_id\<close>.\<close>

definition debt_payment :: "env \<Rightarrow> number \<Rightarrow> nat \<Rightarrow> debtor \<Rightarrow> tx_fields" where
  "debt_payment e p i d =
     \<lparr>f_type = ''debt-payment'', f_amount = Num p, f_paymentType = Some ''cash'',
      f_relatedModel = Some ''Debtor'', f_relatedId = Some i, f_client = Some (client d),
      f_createdBy = user e\<rparr>"

definition post_payment :: "env \<Rightarrow> nat \<Rightarrow> payment_body \<Rightarrow> store \<Rightarrow> store \<times> response" where
  "post_payment e i b st =
     (if falsy (payment b) \<or> typeof (payment b) \<noteq> ''number''
      then (st, \<lparr>code = 400, body = Message ''To'lov miqdori raqam bo'lishi kerak''\<rparr>)
      else
        case payment b of
          JNumber (Num p) \<Rightarrow>
            (case findOne_active st i of
               None \<Rightarrow> (st, \<lparr>code = 404, body = Message ''Qarzdor topilmadi''\<rparr>)
             | Some d \<Rightarrow>
                 (case paid e b p d of
                    None \<Rightarrow> (st, \<lparr>code = 500, body = ErrorMessage\<rparr>)
                  | Some d' \<Rightarrow>
                      let st1 = save_debtor i d' st;
                          st2 = try_create e (debt_payment e p i d') st1
                      in case clients st2 (client d') of
                           None \<Rightarrow> (st2, \<lparr>code = 200, body = populate st2 i\<rparr>)
                         | Some cl \<Rightarrow>
                             (case js_sub (Num (or0 (Num (debt cl)))) (Num p) of
                                NaN \<Rightarrow> (st2, \<lparr>code = 500, body = ErrorMessage\<rparr>)
                              | Num v \<Rightarrow>
                                  let st3 = save_client (client d') cl v st2
                                  in (st3, \<lparr>code = 200, body = populate st3 i\<rparr>))))
        | _ \<Rightarrow> (st, \<lparr>code = 400, body = Message ''To'lov miqdori raqam bo'lishi kerak''\<rparr>))"

subsection \<open>PATCH /debtors/:id\<close>

text \<open>
  The body: \<open>nextPayment\<close> (\<open>None\<close> when falsy) and the rest, which
  \<^verbatim>\<open>Object.assign(debtor, updates)\<close> copies onto the document field by field; a field the
  body does not have is \<open>None\<close>, and an amount is a JSON number. A debtor always has a
  client (the field is required), so the handler's \<^verbatim>\<open>if (clientId)\<close> holds and the
  client's \<open>debt\<close> is always recomputed.
\<close>

record patch_body =
  u_nextPayment :: "nextPayment option"
  u_client :: "nat option"
  u_currentDebt :: "number option"
  u_initialDebt :: "number option"
  u_totalPaid :: "number option"
  u_status :: "string option"
  u_isDeleted :: "bool option"

definition assign :: "debtor \<Rightarrow> patch_body \<Rightarrow> debtor" where
  "assign d u =
     d\<lparr>client := (case u_client u of None \<Rightarrow> client d | Some v \<Rightarrow> v),
       currentDebt := (case u_currentDebt u of None \<Rightarrow> currentDebt d | Some v \<Rightarrow> v),
       initialDebt := (case u_initialDebt u of None \<Rightarrow> initialDebt d | Some v \<Rightarrow> v),
       totalPaid := (case u_totalPaid u of None \<Rightarrow> totalPaid d | Some v \<Rightarrow> v),
       status := (case u_status u of None \<Rightarrow> status d | Some v \<Rightarrow> v),
       isDeleted := (case u_isDeleted u of None \<Rightarrow> isDeleted d | Some v \<Rightarrow> v)\<rparr>"

text \<open>\<^verbatim>\<open>Debtor.find({ client: clientId, isDeleted: false })\<close>\<close>

definition find_active_of :: "store \<Rightarrow> nat \<Rightarrow> debtor list" where
  "find_active_of st c = filter (\<lambda>d. client d = c \<and> \<not> isDeleted d) (debtors st)"

text \<open>\<^verbatim>\<open>let totalDebt = 0; for (const d of allDebts) totalDebt += d.currentDebt || 0;\<close>\<close>

fun sum_debts :: "debtor list \<Rightarrow> jsnum \<Rightarrow> jsnum" where
  "sum_debts [] totalDebt = totalDebt"
| "sum_debts (d # ds) totalDebt =
     sum_debts ds (js_add totalDebt (Num (or0 (Num (currentDebt d)))))"

definition patch_debtor :: "env \<Rightarrow> nat \<Rightarrow> patch_body \<Rightarrow> store \<Rightarrow> store \<times> response" where
  "patch_debtor e i u st =
     (case findOne_active st i of
        None \<Rightarrow> (st, \<lparr>code = 404, body = Message ''Qarzdor topilmadi''\<rparr>)
      | Some d \<Rightarrow>
          let d1 = (case u_nextPayment u of None \<Rightarrow> d | Some np \<Rightarrow> d\<lparr>nextPayment := np\<rparr>);
              d2 = assign d1 u;
              st1 = save_debtor i d2 st;
              clientId = client d2;
              allDebts = find_active_of st1 clientId
          in case sum_debts allDebts (Num (num 0)) of
               NaN \<Rightarrow> (st1, \<lparr>code = 500, body = ErrorMessage\<rparr>)
             | Num totalDebt \<Rightarrow>
                 let st2 = set_debt clientId totalDebt st1
                 in (st2, \<lparr>code = 200, body = populate st2 i\<rparr>))"

subsection \<open>DELETE /debtors/:id\<close>

text \<open>The soft delete that ends the handler.\<close>

definition soft_delete :: "env \<Rightarrow> nat \<Rightarrow> debtor \<Rightarrow> store \<Rightarrow> store \<times> response" where
  "soft_delete e i d st =
     (let d1 = d\<lparr>isDeleted := True\<rparr>;
          d2 = d1\<lparr>deletedAt := Some (now e)\<rparr>
      in (save_debtor i d2 st, \<lparr>code = 200, body = Message ''Qarzdor o'chirildi''\<rparr>))"

definition delete_debtor :: "env \<Rightarrow> nat \<Rightarrow> store \<Rightarrow> store \<times> response" where
  "delete_debtor e i st =
     (case findOne_active st i of
        None \<Rightarrow> (st, \<lparr>code = 404, body = Message ''Qarzdor topilmadi''\<rparr>)
      | Some d \<Rightarrow>
          (case clients st (client d) of
             None \<Rightarrow> soft_delete e i d st
           | Some clientDoc \<Rightarrow>
               (case js_sub (Num (or0 (Num (debt clientDoc))))
                       (Num (or0 (Num (currentDebt d)))) of
                  NaN \<Rightarrow> (st, \<lparr>code = 500, body = ErrorMessage\<rparr>)
                | Num v \<Rightarrow>
                    let st1 = save_client (client d) clientDoc v st;
                        st2 = set_debt (client d) (num 0) st1
                    in soft_delete e i d st2)))"

section \<open>The transaction router\<close>

subsection \<open>GET /transactions\<close>

text \<open>\<^verbatim>\<open>Transaction.find({ isDeleted: false }).populate("client")\<close>\<close>

definition get_transactions :: "store \<Rightarrow> store \<times> response" where
  "get_transactions st =
     (let result = filter (\<lambda>t. \<not> tx_isDeleted t) (transactions st)
      in (st, \<lparr>code = 200,
               body = TransactionsJson
                        (map (\<lambda>t. (t, case tx_client t of None \<Rightarrow> None
                                                         | Some c \<Rightarrow> clients st c)) result)\<rparr>))"

subsection \<open>POST /transactions/cash-in and /cash-out\<close>

text \<open>
  \<open>c_amount\<close> is \<^verbatim>\<open>Number(req.body.amount)\<close>, the coercion the handler starts with;
  \<open>c_client\<close> is \<open>None\<close> when the body's \<open>client\<close> is falsy.
\<close>

record cash_body =
  c_amount :: jsnum
  c_paymentType :: "string option"
  c_createdBy :: "nat option"
  c_client :: "nat option"

text \<open>
  \<^verbatim>\<open>Transaction.create({ type, amount, paymentType, ..., createdBy, client })\<close> and the
  answer: 201 with the entry or, when the creation throws, 500 with the handler's message.
\<close>

definition cash_entry :: "string \<Rightarrow> number \<Rightarrow> cash_body \<Rightarrow> tx_fields" where
  "cash_entry ty a b =
     \<lparr>f_type = ty, f_amount = Num a, f_paymentType = c_paymentType b, f_relatedModel = None,
      f_relatedId = None, f_client = c_client b, f_createdBy = c_createdBy b\<rparr>"

definition create_entry :: "env \<Rightarrow> tx_fields \<Rightarrow> string \<Rightarrow> store \<Rightarrow> store \<times> response" where
  "create_entry e f msg st =
     (case Transaction_create e f st of
        Inr (t, st') \<Rightarrow> (st', \<lparr>code = 201, body = TransactionJson t\<rparr>)
      | Inl err \<Rightarrow> (st, \<lparr>code = 500, body = Message msg\<rparr>))"

definition cash_in :: "env \<Rightarrow> cash_body \<Rightarrow> store \<Rightarrow> store \<times> response" where
  "cash_in e b st =
     (let amount = or0 (c_amount b);
          f = cash_entry ''cash-in'' amount b;
          msg = ''Kirimni qo'shishda xatolik''
      in
      if lt amount (num 0)
      then (st, \<lparr>code = 400, body = Message ''amount musbat bo'lishi kerak''\<rparr>)
      else
        case c_client b of
          None \<Rightarrow> create_entry e f msg st
        | Some c \<Rightarrow>
            (case clients st c of
               None \<Rightarrow> create_entry e f msg st
             | Some isClient \<Rightarrow>
                 (case js_sub (Num (debt isClient)) (Num amount) of
                    NaN \<Rightarrow> (st, \<lparr>code = 500, body = Message msg\<rparr>)
                  | Num v \<Rightarrow> create_entry e f msg (save_client c isClient v st))))"


subsection \<open>DELETE /transactions/:id\<close>

text \<open>\<^verbatim>\<open>Transaction.findByIdAndDelete(id)\<close>: the document found, and the collection without it.\<close>

fun findByIdAndDelete :: "nat \<Rightarrow> transaction list \<Rightarrow> transaction option \<times> transaction list" where
  "findByIdAndDelete i [] = (None, [])"
| "findByIdAndDelete i (t # ts) =
     (if tid t = i then (Some t, ts)
      else let (r, ts') = findByIdAndDelete i ts in (r, t # ts'))"

definition delete_transaction :: "nat \<Rightarrow> store \<Rightarrow> store \<times> response" where
  "delete_transaction i st =
     (let (found, rest) = findByIdAndDelete i (transactions st);
          st1 = st\<lparr>transactions := rest\<rparr>;
          st2 = st1\<lparr>console := console st1 @ [LoggedId i]\<rparr>
      in case found of
           None \<Rightarrow> (st2, \<lparr>code = 404, body = Message ''Transaction not found''\<rparr>)
         | Some t \<Rightarrow> (st2, \<lparr>code = 200, body = Message ''Transaction o`chirildi''\<rparr>))"

subsection \<open>GET /transactions/statistics/monthly-transactions\<close>

text \<open>
  The \<^verbatim>\<open>$group\<close> stage: one row per \<open>(month, type)\<close>, holding the amounts of the group
  in the order of the collection; \<^verbatim>\<open>$sum\<close> then makes the total of each row.
\<close>

fun add_to_group :: "nat \<times> string \<Rightarrow> number \<Rightarrow> ((nat \<times> string) \<times> number list) list
    \<Rightarrow> ((nat \<times> string) \<times> number list) list" where
  "add_to_group k a [] = [(k, [a])]"
| "add_to_group k a ((k', acc) # gs) =
     (if k' = k then (k', acc @ [a]) # gs else (k', acc) # add_to_group k a gs)"

fun group_rows :: "(nat \<times> string \<times> number) list \<Rightarrow> ((nat \<times> string) \<times> number list) list
    \<Rightarrow> ((nat \<times> string) \<times> number list) list" where
  "group_rows [] gs = gs"
| "group_rows ((m, ty, a) # rows) gs = group_rows rows (add_to_group (m, ty) a gs)"

text \<open>
  \<^verbatim>\<open>result.forEach(item => { ... cashIn[index] = item.total ... })\<close>, for the array of one
  type. The index is within the twelve slots, since a month is one of 1..12.
\<close>

fun fill :: "string \<Rightarrow> ((nat \<times> string) \<times> jsnum) list \<Rightarrow> jsnum list \<Rightarrow> jsnum list" where
  "fill ty [] arr = arr"
| "fill ty (((m, ty'), tot) # items) arr =
     fill ty items (if ty' = ty then arr[m - 1 := tot] else arr)"

text \<open>
  \<open>q_year\<close> is \<^verbatim>\<open>parseInt(req.query.year)\<close>, \<open>None\<close> for \<open>NaN\<close>. The two bounds of the
  \<^verbatim>\<open>$match\<close> stage are the first instants, in UTC, of the year and of the next one, so
  a transaction matches when the UTC year of its \<open>createdAt\<close> is that year.
\<close>

definition aggregate :: "env \<Rightarrow> int \<Rightarrow> transaction list \<Rightarrow> ((nat \<times> string) \<times> jsnum) list" where
  "aggregate e year ts =
     (let matched = filter (\<lambda>t. utc_year (createdAt t) = year) ts;
          projected = map (\<lambda>t. (month_of (createdAt t), tx_type t, amount t)) matched;
          groups = group_rows projected []
      in map (\<lambda>(k, amounts). (k, sum_acc e amounts)) groups)"

text \<open>\<^verbatim>\<open>parseInt(req.query.year) || new Date().getFullYear()\<close>\<close>

definition requested_year :: "env \<Rightarrow> int option \<Rightarrow> int" where
  "requested_year e q_year =
     (case q_year of
        None \<Rightarrow> local_year e
      | Some y \<Rightarrow> if y = 0 then local_year e else y)"

definition monthly_transactions :: "env \<Rightarrow> int option \<Rightarrow> store \<Rightarrow> store \<times> response" where
  "monthly_transactions e q_year st =
     (let year = requested_year e q_year;
          result = aggregate e year (transactions st);
          cashIn = fill ''cash-in'' result (replicate 12 (Num (num 0)));
          cashOut = fill ''cash-out'' result (replicate 12 (Num (num 0)))
      in (st, \<lparr>code = 200, body = MonthlyJson cashIn cashOut\<rparr>))"

section \<open>A small shop\<close>

text \<open>
  One client, number 7, with two open debts (600 left of 1000, and 250), and a ledger of
  three entries, the first of them flagged as deleted. Of the runtime's conversions the
  examples need two values each; \<^verbatim>\<open>$sum\<close> adds from left to right.
\<close>

definition today :: jsdate where
  "today = \<lparr>months = 24310, millis = 86400000\<rparr>"

definition env_ok :: env where
  "env_ok = \<lparr>now = today, local_year = 2025, user = Some 1, insert_ok = True,
             to_string = (\<lambda>n. if n = num 850 then ''850'' else ''0''),
             to_number = (\<lambda>s. if s = ''1000'' then Num (num 1000)
                               else if s = ''8501000'' then Num (num 8501000) else NaN),
             sum_acc = foldl js_add (Num (num 0)) \<circ> map Num\<rparr>"

definition env_down :: env where
  "env_down = env_ok\<lparr>insert_ok := False\<rparr>"

definition debt_a :: debtor where
  "debt_a = \<lparr>client = 7, currentDebt = num 600, initialDebt = num 1000,
             initialDebtDate = \<lparr>months = 24300, millis = 0\<rparr>, totalPaid = num 400,
             lastPayment = Some \<lparr>lp_amount = num 400, lp_date = \<lparr>months = 24301, millis = 0\<rparr>\<rparr>,
             nextPayment = \<lparr>np_amount = None, np_dueDate = None\<rparr>,
             status = ''pending'', isDeleted = False, deletedAt = None\<rparr>"

definition debt_b :: debtor where
  "debt_b = \<lparr>client = 7, currentDebt = num 250, initialDebt = num 250,
             initialDebtDate = \<lparr>months = 24302, millis = 0\<rparr>, totalPaid = num 0,
             lastPayment = None,
             nextPayment = \<lparr>np_amount = None, np_dueDate = None\<rparr>,
             status = ''pending'', isDeleted = False, deletedAt = None\<rparr>"

definition entry :: "nat \<Rightarrow> string \<Rightarrow> number \<Rightarrow> int \<Rightarrow> bool \<Rightarrow> transaction" where
  "entry i ty a m del =
     \<lparr>tid = i, tx_type = ty, amount = a, paymentType = ''cash'', relatedModel = None,
      relatedId = None, tx_client = None, createdBy = None,
      createdAt = \<lparr>months = m, millis = 0\<rparr>, tx_isDeleted = del\<rparr>"

definition shop :: store where
  "shop = \<lparr>clients = [7 \<mapsto> \<lparr>debt = num 850\<rparr>],
           debtors = [debt_a, debt_b],
           transactions = [entry 0 ''cash-in'' (num 100) 24300 True,
                           entry 1 ''cash-in'' (num 50) 24300 False,
                           entry 2 ''cash-out'' (num 30) 24302 False],
           next_tid = 3,
           console = []\<rparr>"

text \<open>An edit that sets the second debt to 300, and one that sets the first to 1e400.\<close>

definition raise_b :: patch_body where
  "raise_b = \<lparr>u_nextPayment = None, u_client = None, u_currentDebt = Some (num 300),
              u_initialDebt = None, u_totalPaid = None, u_status = None, u_isDeleted = None\<rparr>"

definition flood :: patch_body where
  "flood = \<lparr>u_nextPayment = None, u_client = None, u_currentDebt = Some PosInf,
            u_initialDebt = None, u_totalPaid = None, u_status = None, u_isDeleted = None\<rparr>"

text \<open>The shop after \<^verbatim>\<open>PATCH /debtors/0\<close> with \<^verbatim>\<open>{ "currentDebt": 1e400 }\<close>.\<close>

definition flooded :: store where
  "flooded = fst (patch_debtor env_ok 0 flood shop)"

text \<open>
  A new debt of 1000 for client 7, the same with \<open>currentDebt\<close> sent as the string
  \<open>"1000"\<close>, and a payment of 400.
\<close>

definition borrow :: create_body where
  "borrow = \<lparr>errors_empty = True, b_client = 7, b_currentDebt = BNum (num 1000),
             b_initialDebt = None, b_nextPayment = None\<rparr>"

definition borrow_str :: create_body where
  "borrow_str = borrow\<lparr>b_currentDebt := BStr ''1000''\<rparr>"

definition pay_400 :: payment_body where
  "pay_400 = \<lparr>payment = JNumber (Num (num 400)), pay_next = None\<rparr>"

text \<open>The debtor that \<open>borrow\<close> creates, and the first debtor after \<open>pay_400\<close>.\<close>

definition debt_c :: debtor where
  "debt_c = \<lparr>client = 7, currentDebt = num 1000, initialDebt = num 1000,
             initialDebtDate = today, totalPaid = num 0, lastPayment = None,
             nextPayment = \<lparr>np_amount = None, np_dueDate = None\<rparr>,
             status = ''pending'', isDeleted = False, deletedAt = None\<rparr>"

definition debt_a_paid :: debtor where
  "debt_a_paid = debt_a\<lparr>currentDebt := num 200, totalPaid := num 800,
                        lastPayment := Some \<lparr>lp_amount = num 400, lp_date = today\<rparr>\<rparr>"

text \<open>An edit that sets \<open>totalPaid\<close> to 100.\<close>

definition lower_paid :: patch_body where
  "lower_paid = \<lparr>u_nextPayment = None, u_client = None, u_currentDebt = None,
                 u_initialDebt = None, u_totalPaid = Some (num 100), u_status = None,
                 u_isDeleted = None\<rparr>"

text \<open>Three cash-in requests for client 7, of 0, of 50 and of -5, and a payment of 0.\<close>

definition zero_in :: cash_body where
  "zero_in = \<lparr>c_amount = Num (num 0), c_paymentType = Some ''cash'', c_createdBy = None,
              c_client = Some 7\<rparr>"



definition pay_zero :: payment_body where
  "pay_zero = \<lparr>payment = JNumber (Num (num 0)), pay_next = None\<rparr>"




section \<open>Facts about rounding\<close>

lemma pow2_pos [simp]: "0 < pow2 e"
  by (simp add: pow2_def)

lemma pow2_neq0 [simp]: "pow2 e \<noteq> 0"
  by (simp add: pow2_def)

lemma pow2_nonneg [simp]: "0 \<le> pow2 e"
  by (simp add: pow2_def)

lemma abs_pow2 [simp]: "\<bar>pow2 e\<bar> = pow2 e"
  by (simp add: pow2_def)

lemma pow2_add: "pow2 (a + b) = pow2 a * pow2 b"
  by (simp add: pow2_def powr_add)

lemma pow2_0 [simp]: "pow2 0 = 1"
  by (simp add: pow2_def)

lemma pow2_nat: "0 \<le> n \<Longrightarrow> pow2 n = 2 ^ nat n"
  by (simp add: pow2_def powr_realpow [symmetric])

lemma pow2_le [simp]: "pow2 a \<le> pow2 b \<longleftrightarrow> a \<le> b"
  by (simp add: pow2_def)

lemma pow2_less [simp]: "pow2 a < pow2 b \<longleftrightarrow> a < b"
  by (simp add: pow2_def)

lemma pow2_diff: "x / pow2 a = x * pow2 (- a)"
  by (simp add: pow2_def powr_minus field_simps)

lemma round_even_int [simp]: "round_even (of_int k) = k"
  by (simp add: round_even_def)

lemma round_even_ge: "\<lfloor>q\<rfloor> \<le> round_even q"
  by (simp add: round_even_def Let_def)

lemma round_even_le: "round_even q \<le> \<lfloor>q\<rfloor> + 1"
  by (simp add: round_even_def Let_def)

lemma is_double_int: "\<bar>k\<bar> < 2 ^ 53 \<Longrightarrow> is_double (of_int k)"
  unfolding is_double_def by (rule exI [of _ k], rule exI [of _ 0]) simp

lemma Rep_int: "\<bar>k\<bar> < 2 ^ 53 \<Longrightarrow> Rep_double (Abs_double (of_int k)) = of_int k"
  by (simp add: Abs_double_inverse is_double_int)

lemma exponent_bounds:
  assumes "x \<noteq> 0"
  shows "\<bar>x\<bar> < pow2 (exponent x + 1)"
    and "- 1022 < exponent x \<Longrightarrow> pow2 (exponent x) \<le> \<bar>x\<bar>"
proof -
  let ?l = "log 2 \<bar>x\<bar>"
  have x: "0 < \<bar>x\<bar>" using assms by simp
  have "?l < of_int (\<lfloor>?l\<rfloor> + 1)" by linarith
  also have "\<dots> \<le> of_int (exponent x + 1)" by (simp add: exponent_def)
  finally have "2 powr ?l < 2 powr of_int (exponent x + 1)" by simp
  then show "\<bar>x\<bar> < pow2 (exponent x + 1)" using x by (simp add: pow2_def)
  assume "- 1022 < exponent x"
  then have "exponent x = \<lfloor>?l\<rfloor>" by (simp add: exponent_def max_def split: if_splits)
  then have "of_int (exponent x) \<le> ?l" by simp
  then have "2 powr of_int (exponent x) \<le> 2 powr ?l" by simp
  then show "pow2 (exponent x) \<le> \<bar>x\<bar>" using x by (simp add: pow2_def)
qed

lemma abs_int_less: "\<bar>k\<bar> < 2 ^ 53 \<Longrightarrow> \<bar>of_int k :: real\<bar> < pow2 53"
proof -
  assume "\<bar>k\<bar> < 2 ^ 53"
  then have "(of_int \<bar>k\<bar> :: real) < of_int (2 ^ 53)" by (simp only: of_int_less_iff)
  then show ?thesis by (simp add: pow2_nat)
qed

lemma exponent_int:
  assumes "k \<noteq> 0" and "\<bar>k\<bar> < 2 ^ 53"
  shows "0 \<le> exponent (of_int k)" and "exponent (of_int k) \<le> 52"
proof -
  let ?x = "of_int k :: real"
  have "1 \<le> \<bar>k\<bar>" using assms(1) by simp
  then have "(of_int 1 :: real) \<le> of_int \<bar>k\<bar>" by (simp only: of_int_le_iff)
  then have x: "?x \<noteq> 0" "1 \<le> \<bar>?x\<bar>" using assms(1) by simp_all
  then have "0 \<le> log 2 \<bar>?x\<bar>" by simp
  then show 0: "0 \<le> exponent ?x" by (simp add: exponent_def)
  then have "pow2 (exponent ?x) \<le> \<bar>?x\<bar>"
    using exponent_bounds(2) [OF x(1)] by simp
  also have "\<bar>?x\<bar> < pow2 53" using assms(2) by (rule abs_int_less)
  finally show "exponent ?x \<le> 52" by simp
qed

lemma rnd_int:
  assumes "\<bar>k\<bar> < 2 ^ 53"
  shows "rnd (of_int k) = Fin (Abs_double (of_int k))"
proof (cases "k = 0")
  case True
  then show ?thesis by (simp add: rnd_def)
next
  case False
  let ?x = "of_int k :: real"
  let ?E = "exponent ?x"
  let ?u = "pow2 (?E - 52)"
  have E: "0 \<le> ?E" "?E \<le> 52" using exponent_int [OF False assms] by auto
  have "?x / ?u = ?x * pow2 (52 - ?E)"
    by (simp add: pow2_diff)
  also have "\<dots> = of_int (k * 2 ^ nat (52 - ?E))"
    using E by (simp add: pow2_nat)
  finally have q: "?x / ?u = of_int (k * 2 ^ nat (52 - ?E))" .
  have "of_int (round_even (?x / ?u)) * ?u = (?x / ?u) * ?u"
    unfolding q round_even_int ..
  then have y: "of_int (round_even (?x / ?u)) * ?u = ?x"
    by simp
  have "\<bar>?x\<bar> < pow2 53" using assms by (rule abs_int_less)
  also have "pow2 53 \<le> pow2 1024" by simp
  finally have "\<not> pow2 1024 \<le> ?x" "\<not> ?x \<le> - pow2 1024" by linarith+
  with False show ?thesis
    unfolding rnd_def nearest_def y by simp
qed

lemma round_even_lower: "of_int j \<le> q \<Longrightarrow> j \<le> round_even q"
proof -
  assume "of_int j \<le> q"
  then have "j \<le> \<lfloor>q\<rfloor>" by (simp add: le_floor_iff)
  with round_even_ge [of q] show ?thesis by linarith
qed

lemma round_even_upper: "q \<le> of_int j \<Longrightarrow> round_even q \<le> j"
proof (cases "q = of_int \<lfloor>q\<rfloor>")
  case True
  assume "q \<le> of_int j"
  with True have "\<lfloor>q\<rfloor> \<le> j" by linarith
  moreover from True have "round_even q = \<lfloor>q\<rfloor>"
    by (metis round_even_int)
  ultimately show ?thesis by simp
next
  case False
  assume "q \<le> of_int j"
  with False have "\<lfloor>q\<rfloor> < j" by linarith
  with round_even_le [of q] show ?thesis by simp
qed

lemma is_double_bound: "is_double a \<Longrightarrow> \<bar>a\<bar> < pow2 1024"
proof -
  assume "is_double a"
  then obtain m e :: int where a: "a = of_int m * pow2 e" and m: "\<bar>m\<bar> < 2 ^ 53"
    and e: "e \<le> 971"
    unfolding is_double_def by blast
  have "\<bar>a\<bar> = \<bar>of_int m\<bar> * pow2 e"
    unfolding a by (simp add: abs_mult)
  also have "\<dots> < pow2 53 * pow2 e"
    using abs_int_less [OF m] by simp
  also have "\<dots> = pow2 (53 + e)" by (simp add: pow2_add)
  also have "\<dots> \<le> pow2 1024" using e by simp
  finally show ?thesis .
qed

lemma rnd_nearest:
  "x \<noteq> 0 \<Longrightarrow> rnd x = (if pow2 1024 \<le> nearest x then PosInf
                       else if nearest x \<le> - pow2 1024 then NegInf
                       else Fin (Abs_double (nearest x)))"
  by (simp add: rnd_def)

lemma exponent_ge: "- 1022 \<le> exponent x"
  by (simp add: exponent_def)

lemma quotient_bounds:
  assumes "x \<noteq> 0"
  shows "\<bar>x / pow2 (exponent x - 52)\<bar> < pow2 53"
    and "- 1022 < exponent x \<Longrightarrow> pow2 52 \<le> \<bar>x / pow2 (exponent x - 52)\<bar>"
proof -
  let ?E = "exponent x"
  have eq: "\<bar>x / pow2 (?E - 52)\<bar> = \<bar>x\<bar> * pow2 (52 - ?E)"
    by (simp add: pow2_diff abs_mult)
  have "\<bar>x\<bar> * pow2 (52 - ?E) < pow2 (?E + 1) * pow2 (52 - ?E)"
    using exponent_bounds(1) [OF assms] by simp
  also have "\<dots> = pow2 53" by (simp flip: pow2_add)
  finally show "\<bar>x / pow2 (?E - 52)\<bar> < pow2 53" unfolding eq .
  assume "- 1022 < ?E"
  then have "pow2 ?E * pow2 (52 - ?E) \<le> \<bar>x\<bar> * pow2 (52 - ?E)"
    using exponent_bounds(2) [OF assms] by simp
  then show "pow2 52 \<le> \<bar>x / pow2 (?E - 52)\<bar>"
    unfolding eq by (simp flip: pow2_add)
qed

lemma pow2_int: "0 \<le> n \<Longrightarrow> pow2 n = of_int (2 ^ nat n)"
  by (simp add: pow2_nat)

lemma round_even_bounds:
  assumes "x \<noteq> 0"
  shows "\<bar>round_even (x / pow2 (exponent x - 52))\<bar> \<le> 2 ^ 53"
proof -
  let ?q = "x / pow2 (exponent x - 52)"
  have "\<bar>?q\<bar> < of_int (2 ^ 53)"
    using quotient_bounds(1) [OF assms] pow2_int [of 53] by simp
  then have "?q \<le> of_int (2 ^ 53)" "of_int (- (2 ^ 53)) \<le> ?q"
    by linarith+
  then have "round_even ?q \<le> 2 ^ 53" "- (2 ^ 53) \<le> round_even ?q"
    by (simp_all only: round_even_upper round_even_lower)
  then show ?thesis by simp
qed

lemma nearest_large:
  assumes "x \<noteq> 0" and "- 1022 < exponent x"
  shows "pow2 (exponent x) \<le> \<bar>nearest x\<bar>"
proof -
  let ?E = "exponent x"
  let ?u = "pow2 (?E - 52)"
  let ?q = "x / ?u"
  let ?n = "round_even ?q"
  have q: "of_int (2 ^ 52) \<le> \<bar>?q\<bar>"
    using quotient_bounds(2) [OF assms] pow2_int [of 52] by simp
  have "2 ^ 52 \<le> \<bar>?n\<bar>"
  proof (cases "0 \<le> ?q")
    case True
    with q have "of_int (2 ^ 52) \<le> ?q" by simp
    then have "2 ^ 52 \<le> ?n" by (rule round_even_lower)
    then show ?thesis by simp
  next
    case False
    with q have "?q \<le> of_int (- (2 ^ 52))" by simp
    then have "?n \<le> - (2 ^ 52)" by (rule round_even_upper)
    then show ?thesis by simp
  qed
  then have "(of_int (2 ^ 52) :: real) \<le> of_int \<bar>?n\<bar>"
    by (simp only: of_int_le_iff)
  then have "pow2 52 \<le> \<bar>of_int ?n\<bar>"
    using pow2_int [of 52] by simp
  then have "pow2 52 * ?u \<le> \<bar>of_int ?n\<bar> * ?u"
    by simp
  then show ?thesis
    by (simp add: nearest_def abs_mult flip: pow2_add)
qed

lemma is_double_nearest:
  assumes "x \<noteq> 0" and "\<bar>nearest x\<bar> < pow2 1024"
  shows "is_double (nearest x)"
proof -
  let ?E = "exponent x"
  let ?u = "pow2 (?E - 52)"
  let ?n = "round_even (x / ?u)"
  have n: "\<bar>?n\<bar> \<le> 2 ^ 53" using assms(1) by (rule round_even_bounds)
  have lo: "- 1022 \<le> ?E" by (rule exponent_ge)
  have hi: "?E \<le> 1023"
  proof (rule ccontr)
    assume "\<not> ?E \<le> 1023"
    then have "1024 \<le> ?E" by simp
    then have "pow2 1024 \<le> pow2 ?E" "- 1022 < ?E" by simp_all
    with nearest_large [OF assms(1)] assms(2) show False by simp
  qed
  show ?thesis
  proof (cases "\<bar>?n\<bar> < 2 ^ 53")
    case True
    have "nearest x = of_int ?n * pow2 (?E - 52)" by (simp add: nearest_def)
    with True lo hi show ?thesis
      unfolding is_double_def by (intro exI [of _ ?n] exI [of _ "?E - 52"]) simp
  next
    case False
    with n have "\<bar>?n\<bar> = 2 ^ 53" by simp
    then consider "?n = 2 ^ 53" | "?n = - (2 ^ 53)" by linarith
    then have eq: "\<exists>m. \<bar>m\<bar> < 2 ^ 53 \<and> nearest x = of_int m * pow2 (?E - 51)"
    proof cases
      case 1
      have "nearest x = of_int (2 ^ 53) * pow2 (?E - 52)"
        unfolding nearest_def 1 ..
      also have "\<dots> = of_int (2 ^ 52) * (pow2 1 * pow2 (?E - 52))"
        using pow2_nat [of 1] by simp
      also have "\<dots> = of_int (2 ^ 52) * pow2 (?E - 51)"
        by (simp flip: pow2_add)
      finally show ?thesis by (intro exI [of _ "2 ^ 52"]) simp
    next
      case 2
      have "nearest x = of_int (- (2 ^ 53)) * pow2 (?E - 52)"
        unfolding nearest_def 2 ..
      also have "\<dots> = of_int (- (2 ^ 52)) * (pow2 1 * pow2 (?E - 52))"
        using pow2_nat [of 1] by simp
      also have "\<dots> = of_int (- (2 ^ 52)) * pow2 (?E - 51)"
        by (simp flip: pow2_add)
      finally show ?thesis by (intro exI [of _ "- (2 ^ 52)"]) simp
    qed
    have "\<bar>nearest x\<bar> = pow2 53 * pow2 (?E - 52)"
      using \<open>\<bar>?n\<bar> = 2 ^ 53\<close> pow2_int [of 53]
      by (simp add: nearest_def abs_mult flip: of_int_abs)
    then have "\<bar>nearest x\<bar> = pow2 (?E + 1)"
      by (simp add: add.commute flip: pow2_add)
    with assms(2) have hi': "?E \<le> 1022" by simp
    from eq obtain m where "\<bar>m\<bar> < 2 ^ 53" "nearest x = of_int m * pow2 (?E - 51)"
      by blast
    with lo hi' show ?thesis
      unfolding is_double_def by (intro exI [of _ m] exI [of _ "?E - 51"]) simp
  qed
qed

lemma nearest_lower:
  assumes a: "is_double a" and le: "a \<le> x" and x: "x \<noteq> 0"
  shows "a \<le> nearest x"
proof -
  let ?E = "exponent x"
  let ?u = "pow2 (?E - 52)"
  let ?q = "x / ?u"
  let ?n = "round_even ?q"
  from a obtain m e :: int where am: "a = of_int m * pow2 e" and m: "\<bar>m\<bar> < 2 ^ 53"
    and elo: "- 1074 \<le> e"
    unfolding is_double_def by blast
  show ?thesis
  proof (cases "?E - 52 \<le> e")
    case True
    have "a / ?u = of_int m * (pow2 e * pow2 (52 - ?E))"
      unfolding am by (simp add: pow2_diff)
    also have "\<dots> = of_int m * pow2 (e + (52 - ?E))"
      by (simp only: pow2_add)
    also have "\<dots> = of_int (m * 2 ^ nat (e + (52 - ?E)))"
      using True by (simp add: pow2_nat)
    finally have j: "a / ?u = of_int (m * 2 ^ nat (e + (52 - ?E)))" .
    have "a / ?u \<le> ?q" using le by (intro divide_right_mono) simp_all
    then have "m * 2 ^ nat (e + (52 - ?E)) \<le> ?n"
      unfolding j by (rule round_even_lower)
    then have "(of_int (m * 2 ^ nat (e + (52 - ?E))) :: real) \<le> of_int ?n"
      by (simp only: of_int_le_iff)
    then have "a / ?u \<le> of_int ?n" unfolding j .
    then have "a / ?u * ?u \<le> of_int ?n * ?u"
      by (rule mult_right_mono) simp
    then show ?thesis by (simp add: nearest_def)
  next
    case False
    then have e: "e + 53 \<le> ?E" by simp
    have E: "- 1022 < ?E" using e elo by simp
    have "\<bar>a\<bar> = \<bar>of_int m\<bar> * pow2 e" unfolding am by (simp add: abs_mult)
    also have "\<dots> < pow2 53 * pow2 e" using abs_int_less [OF m] by simp
    also have "\<dots> = pow2 (e + 53)" by (simp add: pow2_add)
    also have "\<dots> \<le> pow2 ?E" using e by simp
    finally have small: "\<bar>a\<bar> < pow2 ?E" .
    have big: "pow2 ?E \<le> \<bar>x\<bar>" using exponent_bounds(2) [OF x E] .
    have pos: "0 < x"
    proof (rule ccontr)
      assume "\<not> 0 < x"
      with le have "\<bar>x\<bar> \<le> \<bar>a\<bar>" by simp
      with small big show False by simp
    qed
    then have "0 \<le> ?q" by simp
    moreover have "of_int (2 ^ 52) \<le> \<bar>?q\<bar>"
      using quotient_bounds(2) [OF x E] pow2_int [of 52] by simp
    ultimately have "of_int (2 ^ 52) \<le> ?q" by simp
    then have "2 ^ 52 \<le> ?n" by (rule round_even_lower)
    then have "(of_int (2 ^ 52) :: real) \<le> of_int ?n" by (simp only: of_int_le_iff)
    then have "pow2 52 \<le> of_int ?n" using pow2_int [of 52] by simp
    then have "pow2 52 * ?u \<le> of_int ?n * ?u" by simp
    then have "pow2 ?E \<le> nearest x" by (simp add: nearest_def flip: pow2_add)
    with small show ?thesis by linarith
  qed
qed
lemma Rep_zero [simp]: "Rep_double (Abs_double 0) = 0"
  using Rep_int [of 0] by simp

lemma num_Fin: "\<bar>k\<bar> < 2 ^ 53 \<Longrightarrow> num k = Fin (Abs_double (of_int k))"
  by (simp add: num_def rnd_int)

lemma num_eq_iff [simp]:
  "\<bar>a\<bar> < 2 ^ 53 \<Longrightarrow> \<bar>b\<bar> < 2 ^ 53 \<Longrightarrow> num a = num b \<longleftrightarrow> a = b"
  by (simp add: num_Fin Abs_double_inject is_double_int)

lemma js_add_num [simp]:
  "\<bar>a\<bar> < 2 ^ 53 \<Longrightarrow> \<bar>b\<bar> < 2 ^ 53 \<Longrightarrow> \<bar>a + b\<bar> < 2 ^ 53 \<Longrightarrow>
   js_add (Num (num a)) (Num (num b)) = Num (num (a + b))"
  by (simp add: num_Fin Rep_int rnd_int flip: of_int_add)

lemma js_sub_num [simp]:
  "\<bar>a\<bar> < 2 ^ 53 \<Longrightarrow> \<bar>b\<bar> < 2 ^ 53 \<Longrightarrow> \<bar>a - b\<bar> < 2 ^ 53 \<Longrightarrow>
   js_sub (Num (num a)) (Num (num b)) = Num (num (a - b))"
  by (simp add: num_Fin Rep_int rnd_int flip: of_int_diff)

lemma lt_num [simp]:
  "\<bar>a\<bar> < 2 ^ 53 \<Longrightarrow> \<bar>b\<bar> < 2 ^ 53 \<Longrightarrow> lt (num a) (num b) \<longleftrightarrow> a < b"
  by (simp add: num_Fin Rep_int)

lemma or0_Num [simp]: "or0 (Num n) = n"
  by simp

lemma js_max_num [simp]:
  "\<bar>a\<bar> < 2 ^ 53 \<Longrightarrow> \<bar>b\<bar> < 2 ^ 53 \<Longrightarrow>
   js_max (Num (num a)) (Num (num b)) = Num (num (max a b))"
  by (simp add: max_def)

declare or0.simps(2) [simp del]

lemma is_double_Rep [simp]: "is_double (Rep_double a)"
  using Rep_double [of a] by simp

lemma rnd_not_lower:
  assumes "Rep_double a \<le> x"
  shows "\<not> lt (rnd x) (Fin a)"
proof (cases "x = 0")
  case True
  with assms show ?thesis by (simp add: rnd_def)
next
  case False
  have lo: "Rep_double a \<le> nearest x"
    using is_double_Rep assms False by (rule nearest_lower)
  have "\<bar>Rep_double a\<bar> < pow2 1024"
    using is_double_Rep by (rule is_double_bound)
  with lo have up: "\<not> nearest x \<le> - pow2 1024" by linarith
  show ?thesis
  proof (cases "pow2 1024 \<le> nearest x")
    case True
    with False show ?thesis by (simp add: rnd_nearest)
  next
    case big: False
    with up have "\<bar>nearest x\<bar> < pow2 1024" by linarith
    with False have "is_double (nearest x)" by (rule is_double_nearest)
    then have "Rep_double (Abs_double (nearest x)) = nearest x"
      by (simp add: Abs_double_inverse)
    with False big up lo show ?thesis by (simp add: rnd_nearest)
  qed
qed

text \<open>Adding a Number that is not negative lowers nothing, whatever the rounding.\<close>

lemma js_add_not_lower:
  assumes "js_add (Num t) (Num p) = Num t'" and "\<not> lt p (num 0)"
  shows "\<not> lt t' t"
proof (cases t)
  case NegInf
  with assms show ?thesis by (cases p) auto
next
  case PosInf
  with assms show ?thesis by (cases p) (auto simp: num_Fin)
next
  case (Fin a)
  show ?thesis
  proof (cases p)
    case NegInf
    with assms Fin show ?thesis by (simp add: num_Fin)
  next
    case PosInf
    with assms Fin show ?thesis by auto
  next
    case b: (Fin b)
    with assms(2) have "0 \<le> Rep_double b" by (simp add: num_Fin)
    then have "Rep_double a \<le> Rep_double a + Rep_double b" by simp
    then have "\<not> lt (rnd (Rep_double a + Rep_double b)) (Fin a)" by (rule rnd_not_lower)
    with assms(1) Fin b show ?thesis by simp
  qed
qed

lemma num_finite [simp]:
  "\<bar>k\<bar> < 2 ^ 53 \<Longrightarrow> num k \<noteq> PosInf"
  "\<bar>k\<bar> < 2 ^ 53 \<Longrightarrow> num k \<noteq> NegInf"
  "\<bar>k\<bar> < 2 ^ 53 \<Longrightarrow> PosInf \<noteq> num k"
  "\<bar>k\<bar> < 2 ^ 53 \<Longrightarrow> NegInf \<noteq> num k"
  by (simp_all add: num_Fin)

lemma js_add_PosInf [simp]:
  "a \<noteq> NegInf \<Longrightarrow> js_add (Num a) (Num PosInf) = Num PosInf"
  "b \<noteq> NegInf \<Longrightarrow> js_add (Num PosInf) (Num b) = Num PosInf"
  by (cases a; simp) (cases b; simp)

lemma exponent_eq:
  assumes "pow2 E \<le> \<bar>x\<bar>" and "\<bar>x\<bar> < pow2 (E + 1)" and "- 1022 \<le> E"
  shows "exponent x = E"
proof -
  have x: "0 < \<bar>x\<bar>"
    using assms(1) pow2_pos [of E] by linarith
  have "of_int E \<le> log 2 \<bar>x\<bar>"
    using assms(1) x by (simp add: le_log_iff pow2_def)
  moreover have "log 2 \<bar>x\<bar> < of_int E + 1"
    using assms(2) x by (simp add: log_less_iff pow2_def)
  ultimately have "\<lfloor>log 2 \<bar>x\<bar>\<rfloor> = E"
    by (simp add: floor_unique)
  with assms(3) show ?thesis
    by (simp add: exponent_def)
qed

text \<open>A double rounds to itself.\<close>

lemma nearest_double:
  assumes "is_double x" and "x \<noteq> 0"
  shows "nearest x = x"
proof -
  let ?E = "exponent x"
  from assms(1) obtain m e :: int where xm: "x = of_int m * pow2 e" and m: "\<bar>m\<bar> < 2 ^ 53"
    and elo: "- 1074 \<le> e"
    unfolding is_double_def by blast
  have le: "?E - 52 \<le> e"
  proof (cases "- 1022 < ?E")
    case True
    have "pow2 ?E \<le> \<bar>x\<bar>" using exponent_bounds(2) [OF assms(2) True] .
    also have "\<bar>x\<bar> = \<bar>of_int m\<bar> * pow2 e" unfolding xm by (simp add: abs_mult)
    also have "\<dots> < pow2 53 * pow2 e" using abs_int_less [OF m] by simp
    also have "\<dots> = pow2 (e + 53)" by (simp add: pow2_add)
    finally show ?thesis by simp
  next
    case False
    with exponent_ge [of x] have "?E = - 1022" by simp
    with elo show ?thesis by simp
  qed
  have "x / pow2 (?E - 52) = of_int m * (pow2 e * pow2 (52 - ?E))"
    unfolding xm by (simp add: pow2_diff)
  also have "\<dots> = of_int m * pow2 (e + (52 - ?E))"
    by (simp only: pow2_add)
  also have "\<dots> = of_int (m * 2 ^ nat (e + (52 - ?E)))"
    using le by (simp add: pow2_nat)
  finally have q: "x / pow2 (?E - 52) = of_int (m * 2 ^ nat (e + (52 - ?E)))" .
  have "nearest x = x / pow2 (?E - 52) * pow2 (?E - 52)"
    unfolding nearest_def q round_even_int ..
  then show ?thesis by simp
qed

lemma rnd_double: "is_double x \<Longrightarrow> rnd x = Fin (Abs_double x)"
proof (cases "x = 0")
  case True
  then show ?thesis by (simp add: rnd_def)
next
  case False
  assume d: "is_double x"
  then have "\<bar>x\<bar> < pow2 1024" by (rule is_double_bound)
  then have "\<not> pow2 1024 \<le> x" "\<not> x \<le> - pow2 1024" by linarith+
  with False show ?thesis
    by (simp add: rnd_nearest nearest_double [OF d False])
qed

text \<open>
  The doubles thin out: \<open>2 ^ 53 + 1\<close> is not one, and lies halfway between \<open>2 ^ 53\<close> and
  \<open>2 ^ 53 + 2\<close>; the tie goes to the even one.
\<close>

lemma is_double_2_53: "is_double 9007199254740992"
  unfolding is_double_def
  by (rule exI [of _ "2 ^ 52"], rule exI [of _ 1]) (simp add: pow2_nat)

lemma rnd_tie: "rnd 9007199254740993 = Fin (Abs_double 9007199254740992)"
proof -
  let ?x = "9007199254740993 :: real"
  have E: "exponent ?x = 53"
    by (rule exponent_eq) (simp_all add: pow2_nat)
  have q: "?x / pow2 (53 - 52) = 9007199254740993 / 2"
    by (simp add: pow2_nat)
  have f: "\<lfloor>9007199254740993 / 2 :: real\<rfloor> = 4503599627370496"
    by (simp add: floor_unique)
  have r: "round_even (9007199254740993 / 2) = 4503599627370496"
    unfolding round_even_def f Let_def by simp
  have n: "nearest ?x = 9007199254740992"
    unfolding nearest_def E q r by (simp add: pow2_nat)
  have "\<not> pow2 1024 \<le> (9007199254740992 :: real)"
    "\<not> (9007199254740992 :: real) \<le> - pow2 1024"
    using is_double_bound [OF is_double_2_53] by linarith+
  then show ?thesis
    by (simp add: rnd_nearest n)
qed

lemma num_2_53: "num 9007199254740992 = Fin (Abs_double 9007199254740992)"
  using rnd_double [OF is_double_2_53] by (simp add: num_def)

lemma add_one_to_2_53:
  "js_add (Num (num 9007199254740992)) (Num (num 1)) = Num (num 9007199254740992)"
proof -
  have "Rep_double (Abs_double 9007199254740992) = 9007199254740992"
    using is_double_2_53 by (simp add: Abs_double_inverse)
  moreover have "Rep_double (Abs_double 1) = 1"
    using Rep_int [of 1] by simp
  ultimately show ?thesis
    using num_Fin [of 1] by (simp add: num_2_53 rnd_tie)
qed






section \<open>Properties of the debtor router\<close>

subsection \<open>Auxiliary facts about the writes\<close>

lemma payment_guard:
  "(\<not> (falsy v \<or> typeof v \<noteq> ''number'')) = (\<exists>p. v = JNumber (Num p) \<and> p \<noteq> num 0)"
proof (cases v)
  case (JNumber x)
  then show ?thesis by (cases x) auto
qed auto

lemma try_create_debtors [simp]: "debtors (try_create e f st) = debtors st"
  by (simp add: try_create_def Transaction_create_def Let_def
        split: option.splits jsnum.splits)

lemma try_create_clients [simp]: "clients (try_create e f st) = clients st"
  by (simp add: try_create_def Transaction_create_def Let_def
        split: option.splits jsnum.splits)

lemma try_create_Inl:
  "Transaction_create e f st = Inl err \<Longrightarrow>
   try_create e f st = st\<lparr>console := console st @ [TransactionError]\<rparr>"
  by (simp add: try_create_def)

text \<open>The document that a payment writes, field by field.\<close>

lemma paid_Some:
  assumes "js_max (Num (num 0)) (js_sub (Num (currentDebt d)) (Num p)) = Num cd"
    and "js_add (Num (totalPaid d)) (Num p) = Num tp"
  shows "paid e b p d =
     Some (d\<lparr>currentDebt := cd, totalPaid := tp,
             lastPayment := Some \<lparr>lp_amount = p, lp_date = now e\<rparr>,
             nextPayment := (case pay_next b of
                               None \<Rightarrow> nextPayment d
                             | Some (a, due) \<Rightarrow> \<lparr>np_amount = Some (or0 a), np_dueDate = due\<rparr>)\<rparr>)"
  using assms by (simp add: paid_def Let_def split: option.splits prod.splits)

lemma paid_None:
  assumes "js_max (Num (num 0)) (js_sub (Num (currentDebt d)) (Num p)) = NaN
           \<or> js_add (Num (totalPaid d)) (Num p) = NaN"
  shows "paid e b p d = None"
  using assms by (auto simp: paid_def split: jsnum.splits)

lemma paid_fields:
  assumes "paid e b p d = Some d'"
  shows "client d' = client d"
    and "Num (currentDebt d') = js_max (Num (num 0)) (js_sub (Num (currentDebt d)) (Num p))"
    and "Num (totalPaid d') = js_add (Num (totalPaid d)) (Num p)"
    and "lastPayment d' = Some \<lparr>lp_amount = p, lp_date = now e\<rparr>"
    and "isDeleted d' = isDeleted d"
  using assms
  by (auto simp: paid_def Let_def split: option.splits prod.splits jsnum.splits)


lemma js_add_Fin [simp]: "js_add (Num x) (Num (Fin q)) \<noteq> NaN"
  by (cases x) simp_all

lemma js_max_NaN [simp]: "js_max (Num a) y = NaN \<longleftrightarrow> y = NaN"
  by (cases y) simp_all

lemma sum_debts_foldl:
  "sum_debts ds acc = foldl js_add acc (map (\<lambda>d. Num (currentDebt d)) ds)"
  by (induction ds arbitrary: acc) simp_all

lemma client_assign:
  "client (assign d u) = (case u_client u of None \<Rightarrow> client d | Some v \<Rightarrow> v)"
  by (simp add: assign_def)

lemma totalPaid_assign:
  "totalPaid (assign d u) = (case u_totalPaid u of None \<Rightarrow> totalPaid d | Some v \<Rightarrow> v)"
  by (simp add: assign_def)

lemma schema_valid_debt_created:
  "schema_valid (debt_created e b i) =
     (case cast e (b_currentDebt b) of NaN \<Rightarrow> False | Num a \<Rightarrow> \<not> lt a (num 0))"
  by (simp add: schema_valid_def debt_created_def type_enum_def paymentType_enum_def
        relatedModel_enum_def)

lemma schema_valid_debt_payment: "schema_valid (debt_payment e p i d) = (\<not> lt p (num 0))"
  by (simp add: schema_valid_def debt_payment_def type_enum_def paymentType_enum_def
        relatedModel_enum_def)

lemma try_create_transactions:
  "transactions (try_create e f st) =
     (case (f_amount f, f_paymentType f) of
        (Num a, Some p) \<Rightarrow>
          if schema_valid f \<and> insert_ok e
          then transactions st @
                 [\<lparr>tid = next_tid st, tx_type = f_type f, amount = a, paymentType = p,
                   relatedModel = f_relatedModel f, relatedId = f_relatedId f,
                   tx_client = f_client f, createdBy = f_createdBy f, createdAt = now e,
                   tx_isDeleted = False\<rparr>]
          else transactions st
      | _ \<Rightarrow> transactions st)"
  by (simp add: try_create_def Transaction_create_def Let_def
        split: option.splits jsnum.splits)

lemma map_update_same: "(map f xs)[i := f (xs ! i)] = map f xs"
  by (metis list_update_id map_update)

lemma findOne_active_SomeD:
  "findOne_active st i = Some d \<Longrightarrow> i < length (debtors st) \<and> debtors st ! i = d \<and> \<not> isDeleted d"
  by (auto simp: findOne_active_def split: if_splits)

lemma clients_save_debtor [simp]: "clients (save_debtor i d st) = clients st"
  by (simp add: save_debtor_def)

lemma debtors_save_debtor [simp]: "debtors (save_debtor i d st) = (debtors st)[i := d]"
  by (simp add: save_debtor_def)

lemma fields_debt_created [simp]:
  "f_paymentType (debt_created e b i) = Some ''debt''"
  "f_amount (debt_created e b i) = cast e (b_currentDebt b)"
  by (simp_all add: debt_created_def)

lemma fields_debt_payment [simp]:
  "f_paymentType (debt_payment e p i d) = Some ''cash''"
  "f_amount (debt_payment e p i d) = Num p"
  by (simp_all add: debt_payment_def)

lemma lt_irrefl [simp]: "\<not> lt a a"
  by (cases a) simp_all

subsection \<open>Paying a debt\<close>

text \<open>
  C1. A payment that passes the guard of \<^verbatim>\<open>POST /debtors/:id/payment\<close> is a number \<open>p\<close>
  other than 0 and \<open>NaN\<close>. For a debtor \<open>d\<close> that is found and whose client \<open>c\<close> exists,
  the handler answers 200, sets the debtor's \<open>currentDebt\<close> to
  \<^verbatim>\<open>Math.max(0, currentDebt - p)\<close>, adds \<open>p\<close> to its \<open>totalPaid\<close>, and takes exactly \<open>p\<close>
  off the client's \<open>debt\<close>, with no clamping there; each of the three is the double that
  the operation rounds to. That is so whenever none of the three is \<open>NaN\<close>, which a finite
  payment never gives (\<open>js_sub_Fin\<close>, \<open>js_add_Fin\<close>): only an infinite payment against an
  infinite amount does. A \<open>NaN\<close> cannot be written, and the answer then is 500, with
  nothing written when it is the debtor's and the client left as it was when it is the
  client's.
\<close>

theorem payment_updates_debtor_and_client:
  assumes "payment b = JNumber (Num p)" and "p \<noteq> num 0"
    and "findOne_active st i = Some d"
    and "clients st (client d) = Some c"
  shows "(js_max (Num (num 0)) (js_sub (Num (currentDebt d)) (Num p)) \<noteq> NaN \<and>
          js_add (Num (totalPaid d)) (Num p) \<noteq> NaN \<and>
          js_sub (Num (debt c)) (Num p) \<noteq> NaN \<longrightarrow>
          (\<exists>st' d' c'. post_payment e i b st =
                  (st', \<lparr>code = 200, body = DebtorJson i d' (Some c')\<rparr>)
             \<and> findOne_active st' i = Some d'
             \<and> client d' = client d
             \<and> Num (currentDebt d') = js_max (Num (num 0)) (js_sub (Num (currentDebt d)) (Num p))
             \<and> Num (totalPaid d') = js_add (Num (totalPaid d)) (Num p)
             \<and> lastPayment d' = Some \<lparr>lp_amount = p, lp_date = now e\<rparr>
             \<and> clients st' (client d) = Some c'
             \<and> Num (debt c') = js_sub (Num (debt c)) (Num p)))
     \<and> (js_max (Num (num 0)) (js_sub (Num (currentDebt d)) (Num p)) = NaN \<or>
        js_add (Num (totalPaid d)) (Num p) = NaN \<longrightarrow>
          post_payment e i b st = (st, \<lparr>code = 500, body = ErrorMessage\<rparr>))
     \<and> (js_sub (Num (debt c)) (Num p) = NaN \<longrightarrow>
          code (snd (post_payment e i b st)) = 500
          \<and> clients (fst (post_payment e i b st)) = clients st)"
proof (intro conjI impI)
  assume "js_max (Num (num 0)) (js_sub (Num (currentDebt d)) (Num p)) \<noteq> NaN \<and>
          js_add (Num (totalPaid d)) (Num p) \<noteq> NaN \<and>
          js_sub (Num (debt c)) (Num p) \<noteq> NaN"
  then obtain cd tp v where r:
    "js_max (Num (num 0)) (js_sub (Num (currentDebt d)) (Num p)) = Num cd"
    "js_add (Num (totalPaid d)) (Num p) = Num tp"
    "js_sub (Num (debt c)) (Num p) = Num v"
    by (metis jsnum.exhaust)
  define d' where "d' = d\<lparr>currentDebt := cd, totalPaid := tp,
             lastPayment := Some \<lparr>lp_amount = p, lp_date = now e\<rparr>,
             nextPayment := (case pay_next b of
                               None \<Rightarrow> nextPayment d
                             | Some (a, due) \<Rightarrow> \<lparr>np_amount = Some (or0 a), np_dueDate = due\<rparr>)\<rparr>"
  define st' where "st' = save_client (client d) c v
      (try_create e (debt_payment e p i d') (save_debtor i d' st))"
  have pd: "paid e b p d = Some d'"
    unfolding d'_def using r(1,2) by (rule paid_Some)
  have i: "i < length (debtors st)" "\<not> isDeleted d"
    using assms(3) findOne_active_SomeD by blast+
  have "post_payment e i b st =
      (st', \<lparr>code = 200, body = DebtorJson i d' (Some (c\<lparr>debt := v\<rparr>))\<rparr>)"
    using assms r(3) pd i
    by (simp add: post_payment_def Let_def populate_def save_client_def save_debtor_def
          d'_def st'_def)
  moreover have "findOne_active st' i = Some d'"
    using i by (simp add: findOne_active_def save_client_def save_debtor_def d'_def st'_def)
  moreover have "clients st' (client d) = Some (c\<lparr>debt := v\<rparr>)"
    by (simp add: save_client_def save_debtor_def st'_def)
  ultimately show "\<exists>st' d' c'. post_payment e i b st =
                  (st', \<lparr>code = 200, body = DebtorJson i d' (Some c')\<rparr>)
             \<and> findOne_active st' i = Some d'
             \<and> client d' = client d
             \<and> Num (currentDebt d') = js_max (Num (num 0)) (js_sub (Num (currentDebt d)) (Num p))
             \<and> Num (totalPaid d') = js_add (Num (totalPaid d)) (Num p)
             \<and> lastPayment d' = Some \<lparr>lp_amount = p, lp_date = now e\<rparr>
             \<and> clients st' (client d) = Some c'
             \<and> Num (debt c') = js_sub (Num (debt c)) (Num p)"
    using r by (intro exI [of _ st'] exI [of _ d'] exI [of _ "c\<lparr>debt := v\<rparr>"])
      (simp add: d'_def)
next
  assume "js_max (Num (num 0)) (js_sub (Num (currentDebt d)) (Num p)) = NaN \<or>
        js_add (Num (totalPaid d)) (Num p) = NaN"
  then have "paid e b p d = None" by (rule paid_None)
  with assms show "post_payment e i b st = (st, \<lparr>code = 500, body = ErrorMessage\<rparr>)"
    by (simp add: post_payment_def)
next
  assume n: "js_sub (Num (debt c)) (Num p) = NaN"
  show "code (snd (post_payment e i b st)) = 500"
    using assms n
    by (simp add: post_payment_def Let_def save_debtor_def paid_fields(1)
          split: option.splits)
next
  assume n: "js_sub (Num (debt c)) (Num p) = NaN"
  show "clients (fst (post_payment e i b st)) = clients st"
    using assms n
    by (simp add: post_payment_def Let_def save_debtor_def paid_fields(1)
          split: option.splits)
qed

text \<open>
  An overpayment: 10000 against the 600 that are left. The debtor's \<open>currentDebt\<close> stops at 0
  while the client's \<open>debt\<close> goes from 850 to -9150. And a payment of 1 to a debtor whose
  \<open>totalPaid\<close> is \<open>2 ^ 53\<close>: the sum is not a double, and \<open>totalPaid\<close> stays where it was.
\<close>

theorem payment_updates_debtor_and_client_witness:
  "payment \<lparr>payment = JNumber (Num (num 10000)), pay_next = None\<rparr> = JNumber (Num (num 10000))
   \<and> num 10000 \<noteq> num 0
   \<and> findOne_active shop 0 = Some debt_a
   \<and> clients shop (client debt_a) = Some \<lparr>debt = num 850\<rparr>
   \<and> (\<exists>st' d'. post_payment env_ok 0 \<lparr>payment = JNumber (Num (num 10000)), pay_next = None\<rparr>
                  shop =
          (st', \<lparr>code = 200, body = DebtorJson 0 d' (Some \<lparr>debt = num (- 9150)\<rparr>)\<rparr>)
        \<and> findOne_active st' 0 = Some d'
        \<and> currentDebt d' = num 0 \<and> totalPaid d' = num 10400
        \<and> clients st' 7 = Some \<lparr>debt = num (- 9150)\<rparr>)
   \<and> findOne_active (shop\<lparr>debtors := [debt_a\<lparr>totalPaid := num 9007199254740992\<rparr>]\<rparr>) 0
         = Some (debt_a\<lparr>totalPaid := num 9007199254740992\<rparr>)
   \<and> (\<exists>st' d' c'. post_payment env_ok 0 \<lparr>payment = JNumber (Num (num 1)), pay_next = None\<rparr>
                  (shop\<lparr>debtors := [debt_a\<lparr>totalPaid := num 9007199254740992\<rparr>]\<rparr>) =
          (st', \<lparr>code = 200, body = DebtorJson 0 d' (Some c')\<rparr>)
        \<and> currentDebt d' = num 599 \<and> totalPaid d' = num 9007199254740992
        \<and> debt c' = num 849)"
proof -
  have a: "findOne_active shop 0 = Some debt_a"
    by (simp add: findOne_active_def shop_def debt_a_def)
  have b: "clients shop (client debt_a) = Some \<lparr>debt = num 850\<rparr>"
    by (simp add: shop_def debt_a_def)
  have p: "payment \<lparr>payment = JNumber (Num (num 10000)), pay_next = None\<rparr>
             = JNumber (Num (num 10000))" "num 10000 \<noteq> num 0"
    by simp_all
  have v: "js_max (Num (num 0)) (js_sub (Num (currentDebt debt_a)) (Num (num 10000)))
             = Num (num 0)"
    "js_add (Num (totalPaid debt_a)) (Num (num 10000)) = Num (num 10400)"
    "js_sub (Num (debt \<lparr>debt = num 850\<rparr>)) (Num (num 10000)) = Num (num (- 9150))"
    by (simp_all add: debt_a_def)
  from payment_updates_debtor_and_client [OF p a b, of env_ok]
  obtain st' d' c' where r:
    "post_payment env_ok 0 \<lparr>payment = JNumber (Num (num 10000)), pay_next = None\<rparr> shop =
       (st', \<lparr>code = 200, body = DebtorJson 0 d' (Some c')\<rparr>)"
    "findOne_active st' 0 = Some d'"
    "Num (currentDebt d') = Num (num 0)" "Num (totalPaid d') = Num (num 10400)"
    "clients st' (client debt_a) = Some c'" "Num (debt c') = Num (num (- 9150))"
    unfolding v by auto
  from r(6) have "c' = \<lparr>debt = num (- 9150)\<rparr>"
    by (cases c') simp
  with r have "\<exists>st' d'. post_payment env_ok 0
                  \<lparr>payment = JNumber (Num (num 10000)), pay_next = None\<rparr> shop =
          (st', \<lparr>code = 200, body = DebtorJson 0 d' (Some \<lparr>debt = num (- 9150)\<rparr>)\<rparr>)
        \<and> findOne_active st' 0 = Some d'
        \<and> currentDebt d' = num 0 \<and> totalPaid d' = num 10400
        \<and> clients st' 7 = Some \<lparr>debt = num (- 9150)\<rparr>"
    by (auto simp: debt_a_def)
  note first = this
  let ?big = "debt_a\<lparr>totalPaid := num 9007199254740992\<rparr>"
  let ?st = "shop\<lparr>debtors := [?big]\<rparr>"
  have a2: "findOne_active ?st 0 = Some ?big"
    by (simp add: findOne_active_def debt_a_def)
  have b2: "clients ?st (client ?big) = Some \<lparr>debt = num 850\<rparr>"
    by (simp add: shop_def debt_a_def)
  have p2: "payment \<lparr>payment = JNumber (Num (num 1)), pay_next = None\<rparr>
              = JNumber (Num (num 1))" "num 1 \<noteq> num 0"
    by simp_all
  have v2: "js_max (Num (num 0)) (js_sub (Num (currentDebt ?big)) (Num (num 1)))
              = Num (num 599)"
    "js_add (Num (totalPaid ?big)) (Num (num 1)) = Num (num 9007199254740992)"
    "js_sub (Num (debt \<lparr>debt = num 850\<rparr>)) (Num (num 1)) = Num (num 849)"
    by (simp_all add: debt_a_def add_one_to_2_53)
  from payment_updates_debtor_and_client [OF p2 a2 b2, of env_ok]
  have second: "\<exists>st' d' c'. post_payment env_ok 0
                  \<lparr>payment = JNumber (Num (num 1)), pay_next = None\<rparr> ?st =
          (st', \<lparr>code = 200, body = DebtorJson 0 d' (Some c')\<rparr>)
        \<and> currentDebt d' = num 599 \<and> totalPaid d' = num 9007199254740992
        \<and> debt c' = num 849"
    unfolding v2 by auto
  from a b p first a2 second show ?thesis by blast
qed

subsection \<open>Editing a debt\<close>

text \<open>
  C2. \<^verbatim>\<open>PATCH /debtors/:id\<close> on a debtor that is found, when the client \<open>k\<close> that the
  debtor refers to after the merge exists. The handler adds up, from 0 and from left to
  right, each sum rounded to a double, the \<open>currentDebt\<close> of all the debtors of \<open>k\<close> that are
  not deleted, as they are after the merge. When the total is a number the answer is 200 and
  the client's \<open>debt\<close> is that total, whatever it was before and however many debtors the
  client has. The total can be \<open>NaN\<close> only when infinities of both signs meet in it; it
  cannot be written, and the answer is then 500 with the merge saved and the clients as they
  were.
\<close>

theorem patch_recomputes_client_debt:
  assumes "findOne_active st i = Some d"
    and "k = (case u_client u of None \<Rightarrow> client d | Some v \<Rightarrow> v)"
    and "clients st k = Some c"
  shows "\<exists>st' resp d'. patch_debtor e i u st = (st', resp)
      \<and> i < length (debtors st') \<and> debtors st' ! i = d' \<and> client d' = k
      \<and> (case foldl js_add (Num (num 0))
                 (map (\<lambda>x. Num (currentDebt x))
                    (filter (\<lambda>x. client x = k \<and> \<not> isDeleted x) (debtors st'))) of
            Num tot \<Rightarrow>
              resp = \<lparr>code = 200, body = DebtorJson i d' (Some (c\<lparr>debt := tot\<rparr>))\<rparr>
              \<and> clients st' k = Some (c\<lparr>debt := tot\<rparr>)
          | NaN \<Rightarrow>
              resp = \<lparr>code = 500, body = ErrorMessage\<rparr> \<and> clients st' = clients st)"
proof -
  define d2 where
    "d2 = assign (case u_nextPayment u of None \<Rightarrow> d | Some np \<Rightarrow> d\<lparr>nextPayment := np\<rparr>) u"
  define st1 where "st1 = save_debtor i d2 st"
  define tot where "tot = sum_debts (find_active_of st1 k) (Num (num 0))"
  have i: "i < length (debtors st)"
    using assms(1) by (simp add: findOne_active_def split: if_splits)
  have k: "client d2 = k"
    using assms(2) by (simp add: d2_def client_assign split: option.splits)
  have ds: "debtors st1 = (debtors st)[i := d2]"
    by (simp add: st1_def save_debtor_def)
  have c1: "clients st1 = clients st"
    by (simp add: st1_def save_debtor_def)
  have fa: "tot = foldl js_add (Num (num 0))
                 (map (\<lambda>x. Num (currentDebt x))
                    (filter (\<lambda>x. client x = k \<and> \<not> isDeleted x) (debtors st1)))"
    by (simp add: tot_def find_active_of_def sum_debts_foldl)
  show ?thesis
  proof (cases tot)
    case NaN
    then have "patch_debtor e i u st = (st1, \<lparr>code = 500, body = ErrorMessage\<rparr>)"
      using assms(1) k by (simp add: patch_debtor_def Let_def d2_def st1_def tot_def)
    with NaN i k c1 show ?thesis
      unfolding fa by (intro exI [of _ st1] exI [of _ d2]) (simp add: ds)
  next
    case (Num t)
    define st2 where "st2 = set_debt k t st1"
    have run: "patch_debtor e i u st = (st2, \<lparr>code = 200, body = populate st2 i\<rparr>)"
      using assms(1) k Num
      by (simp add: patch_debtor_def Let_def d2_def st1_def tot_def st2_def)
    have ds2: "debtors st2 = debtors st1"
      by (simp add: st2_def set_debt_def split: option.splits)
    have cl: "clients st2 k = Some (c\<lparr>debt := t\<rparr>)"
      using assms(3) c1 by (simp add: st2_def set_debt_def)
    have pop: "populate st2 i = DebtorJson i d2 (Some (c\<lparr>debt := t\<rparr>))"
      using i k cl by (simp add: populate_def ds2 ds)
    from Num have "foldl js_add (Num (num 0))
                 (map (\<lambda>x. Num (currentDebt x))
                    (filter (\<lambda>x. client x = k \<and> \<not> isDeleted x) (debtors st2))) = Num t"
      unfolding fa ds2 by simp
    with run pop i k cl show ?thesis
      by (intro exI [of _ st2] exI [of _ d2]) (simp add: ds2 ds)
  qed
qed

text \<open>
  The second debt of client 7 goes from 250 to 300: the client's \<open>debt\<close>, 850 before, becomes
  600 + 300.
\<close>

theorem patch_recomputes_client_debt_witness:
  "findOne_active shop 1 = Some debt_b \<and> clients shop 7 = Some \<lparr>debt = num 850\<rparr>
   \<and> (\<exists>d'. patch_debtor env_ok 1 raise_b shop =
         (shop\<lparr>debtors := [debt_a, d'], clients := [7 \<mapsto> \<lparr>debt = num 900\<rparr>]\<rparr>,
          \<lparr>code = 200, body = DebtorJson 1 d' (Some \<lparr>debt = num 900\<rparr>)\<rparr>)
       \<and> currentDebt d' = num 300)
   \<and> foldl js_add (Num (num 0)) [Num (num 600), Num (num 300)] = Num (num 900)"
proof -
  have a: "findOne_active shop 1 = Some debt_b"
    by (simp add: findOne_active_def shop_def debt_b_def)
  have b: "clients shop 7 = Some \<lparr>debt = num 850\<rparr>"
    by (simp add: shop_def)
  have k: "7 = (case u_client raise_b of None \<Rightarrow> client debt_b | Some v \<Rightarrow> v)"
    by (simp add: raise_b_def debt_b_def)
  have f: "foldl js_add (Num (num 0)) [Num (num 600), Num (num 300)] = Num (num 900)"
    by simp
  from patch_recomputes_client_debt [OF a k b, of env_ok]
  obtain st' resp d' where r:
    "patch_debtor env_ok 1 raise_b shop = (st', resp)"
    "debtors st' ! 1 = d'"
    "case foldl js_add (Num (num 0))
                 (map (\<lambda>x. Num (currentDebt x))
                    (filter (\<lambda>x. client x = 7 \<and> \<not> isDeleted x) (debtors st'))) of
            Num tot \<Rightarrow>
              resp = \<lparr>code = 200, body = DebtorJson 1 d' (Some (\<lparr>debt = num 850\<rparr>\<lparr>debt := tot\<rparr>))\<rparr>
              \<and> clients st' 7 = Some (\<lparr>debt = num 850\<rparr>\<lparr>debt := tot\<rparr>)
          | NaN \<Rightarrow>
              resp = \<lparr>code = 500, body = ErrorMessage\<rparr> \<and> clients st' = clients shop"
    by blast
  have s: "st' = fst (patch_debtor env_ok 1 raise_b shop)"
    using r(1) by simp
  have ds: "debtors st' = [debt_a, debt_b\<lparr>currentDebt := num 300\<rparr>]"
    unfolding s
    by (simp add: patch_debtor_def findOne_active_def Let_def save_debtor_def set_debt_def
          assign_def raise_b_def shop_def debt_b_def split: jsnum.splits)
  have rest: "st' = shop\<lparr>debtors := debtors st', clients := clients st'\<rparr>"
    unfolding s
    by (simp add: patch_debtor_def findOne_active_def Let_def save_debtor_def set_debt_def
          shop_def debt_b_def split: jsnum.splits)
  from r(3) have t: "resp = \<lparr>code = 200, body = DebtorJson 1 d' (Some \<lparr>debt = num 900\<rparr>)\<rparr>"
    "clients st' 7 = Some \<lparr>debt = num 900\<rparr>"
    unfolding ds by (simp_all add: debt_a_def debt_b_def)
  have "dom (clients st') = {7}"
    unfolding s
    by (simp add: patch_debtor_def findOne_active_def Let_def save_debtor_def set_debt_def
          assign_def raise_b_def shop_def debt_b_def split: jsnum.splits)
  with t(2) have cs: "clients st' = [7 \<mapsto> \<lparr>debt = num 900\<rparr>]"
    by (auto simp: fun_eq_iff dom_def)
  have d': "d' = debt_b\<lparr>currentDebt := num 300\<rparr>"
    using r(2) ds by simp
  have "patch_debtor env_ok 1 raise_b shop =
         (shop\<lparr>debtors := [debt_a, d'], clients := [7 \<mapsto> \<lparr>debt = num 900\<rparr>]\<rparr>,
          \<lparr>code = 200, body = DebtorJson 1 d' (Some \<lparr>debt = num 900\<rparr>)\<rparr>)"
    using r(1) t(1) rest cs ds d' by simp
  moreover have "currentDebt d' = num 300"
    using d' by simp
  ultimately show ?thesis
    using a b f by blast
qed

subsection \<open>Deleting a debt\<close>

text \<open>
  C3, as amended. \<^verbatim>\<open>DELETE /debtors/:id\<close> on a debtor \<open>d\<close> that is found and whose client
  \<open>c\<close> exists first takes the debtor's \<open>currentDebt\<close> off the client's \<open>debt\<close> and saves
  the client. When that difference is a number, the debtor gets \<open>isDeleted = True\<close> and
  \<open>deletedAt = now\<close>, the client's \<open>debt\<close> becomes 0, and nothing else changes; the other
  debtors of the client play no part. When it is \<open>NaN\<close>, which two infinities of one sign
  give, the save throws: the answer is 500 and nothing changes.
\<close>

theorem delete_resets_client_debt:
  assumes "findOne_active st i = Some d"
    and "clients st (client d) = Some c"
  shows "(js_sub (Num (debt c)) (Num (currentDebt d)) \<noteq> NaN \<longrightarrow>
          delete_debtor e i st =
            (st\<lparr>clients := (clients st)(client d \<mapsto> c\<lparr>debt := num 0\<rparr>),
                debtors := (debtors st)[i := d\<lparr>isDeleted := True, deletedAt := Some (now e)\<rparr>]\<rparr>,
             \<lparr>code = 200, body = Message ''Qarzdor o'chirildi''\<rparr>))
     \<and> (js_sub (Num (debt c)) (Num (currentDebt d)) = NaN \<longrightarrow>
          delete_debtor e i st = (st, \<lparr>code = 500, body = ErrorMessage\<rparr>))"
  using assms
  by (auto simp: delete_debtor_def soft_delete_def save_debtor_def save_client_def set_debt_def
        Let_def split: jsnum.splits)

text \<open>The first debt of client 7 is deleted; the second one, of 250, stays open.\<close>

theorem delete_resets_client_debt_witness:
  "findOne_active shop 0 = Some debt_a
   \<and> clients shop (client debt_a) = Some \<lparr>debt = num 850\<rparr>
   \<and> js_sub (Num (num 850)) (Num (currentDebt debt_a)) = Num (num 250)
   \<and> delete_debtor env_ok 0 shop =
       (shop\<lparr>clients := [7 \<mapsto> \<lparr>debt = num 0\<rparr>],
             debtors := [debt_a\<lparr>isDeleted := True, deletedAt := Some today\<rparr>, debt_b]\<rparr>,
        \<lparr>code = 200, body = Message ''Qarzdor o'chirildi''\<rparr>)
   \<and> findOne_active shop 1 = Some debt_b \<and> client debt_b = client debt_a
   \<and> currentDebt debt_b = num 250"
proof -
  have a: "findOne_active shop 0 = Some debt_a"
    by (simp add: findOne_active_def shop_def debt_a_def)
  have b: "clients shop (client debt_a) = Some \<lparr>debt = num 850\<rparr>"
    by (simp add: shop_def debt_a_def)
  have v: "js_sub (Num (num 850)) (Num (currentDebt debt_a)) = Num (num 250)"
    by (simp add: debt_a_def)
  show ?thesis
    using delete_resets_client_debt [OF a b, of env_ok] v
    by (simp add: shop_def debt_a_def debt_b_def env_ok_def findOne_active_def)
qed

text \<open>
  C3 as stated fails. \<^verbatim>\<open>PATCH /debtors/0\<close> with \<^verbatim>\<open>{ "currentDebt": 1e400 }\<close>, a number
  that JSON reads as \<open>Infinity\<close>, leaves the first debt and, by the sum of C2, the client's
  \<open>debt\<close> infinite. \<^verbatim>\<open>DELETE /debtors/0\<close> then computes \<open>Infinity - Infinity\<close>: the
  answer is 500, the debtor is not deleted and the client's \<open>debt\<close> is not 0.
\<close>

theorem delete_refused_at_infinity:
  "code (snd (patch_debtor env_ok 0 flood shop)) = 200
   \<and> findOne_active flooded 0 = Some (debt_a\<lparr>currentDebt := PosInf\<rparr>)
   \<and> clients flooded 7 = Some \<lparr>debt = PosInf\<rparr>
   \<and> delete_debtor env_ok 0 flooded = (flooded, \<lparr>code = 500, body = ErrorMessage\<rparr>)
   \<and> \<not> isDeleted (debtors (fst (delete_debtor env_ok 0 flooded)) ! 0)
   \<and> clients (fst (delete_debtor env_ok 0 flooded)) 7 \<noteq> Some \<lparr>debt = num 0\<rparr>"
proof -
  have p: "patch_debtor env_ok 0 flood shop =
      (shop\<lparr>debtors := [debt_a\<lparr>currentDebt := PosInf\<rparr>, debt_b],
            clients := [7 \<mapsto> \<lparr>debt = PosInf\<rparr>]\<rparr>,
       \<lparr>code = 200,
        body = DebtorJson 0 (debt_a\<lparr>currentDebt := PosInf\<rparr>) (Some \<lparr>debt = PosInf\<rparr>)\<rparr>)"
    by (simp add: patch_debtor_def findOne_active_def Let_def save_debtor_def set_debt_def
          find_active_of_def assign_def populate_def flood_def shop_def debt_a_def debt_b_def)
  then have f: "flooded = shop\<lparr>debtors := [debt_a\<lparr>currentDebt := PosInf\<rparr>, debt_b],
                             clients := [7 \<mapsto> \<lparr>debt = PosInf\<rparr>]\<rparr>"
    by (simp add: flooded_def)
  have a: "findOne_active flooded 0 = Some (debt_a\<lparr>currentDebt := PosInf\<rparr>)"
    by (simp add: f findOne_active_def debt_a_def)
  have c: "clients flooded 7 = Some \<lparr>debt = PosInf\<rparr>"
    by (simp add: f)
  have d: "delete_debtor env_ok 0 flooded = (flooded, \<lparr>code = 500, body = ErrorMessage\<rparr>)"
    by (simp add: delete_debtor_def a) (simp add: f debt_a_def)
  from p a c d show ?thesis
    by (simp add: f debt_a_def)
qed

subsection \<open>A ledger entry that cannot be written\<close>

text \<open>
  C4. In \<^verbatim>\<open>POST /debtors\<close> and in \<^verbatim>\<open>POST /debtors/:id/payment\<close>, when
  \<^verbatim>\<open>Transaction.create\<close> fails (for whatever reason: \<open>Inl err\<close>), the handler still answers
  201, respectively 200, and the failure goes to the console. The debtor is written: for a
  new debt the document \<open>D\<close> with the body's \<open>currentDebt\<close> and \<open>initialDebt\<close> as cast to
  numbers and \<open>totalPaid = 0\<close>; for a payment the document \<open>P\<close>, which is \<open>d\<close> with
  \<open>currentDebt\<close>, \<open>totalPaid\<close> and \<open>lastPayment\<close> as C1 gives them. The client's \<open>debt\<close> is
  updated: for a new debt to the sum of \<open>debt\<close> and \<open>currentDebt\<close> (or, for a
  \<open>currentDebt\<close> sent as a string, to the number that the two written one after the other
  read as), for a payment to \<open>debt - p\<close>. The ledger is the one from before the request.
  All this for amounts that can be written, that is, are not \<open>NaN\<close>.
\<close>

theorem ledger_failure_is_swallowed:
  "(errors_empty b \<and> clients st (b_client b) = Some c \<and>
    cast e (b_currentDebt b) = Num cd \<and>
    (case b_initialDebt b of None \<Rightarrow> Num cd | Some x \<Rightarrow> cast e x) = Num idebt \<and>
    (case b_currentDebt b of
       BNum n \<Rightarrow> js_add (Num (debt c)) (Num n)
     | BStr s \<Rightarrow> if s = [] then js_add (Num (debt c)) (Num (num 0))
                 else to_number e (to_string e (debt c) @ s)) = Num v \<and>
    D = \<lparr>client = b_client b, currentDebt = cd, initialDebt = idebt, initialDebtDate = now e,
         totalPaid = num 0, lastPayment = None,
         nextPayment = (case b_nextPayment b of
                          None \<Rightarrow> \<lparr>np_amount = None, np_dueDate = None\<rparr> | Some np \<Rightarrow> np),
         status = ''pending'', isDeleted = False, deletedAt = None\<rparr> \<and>
    Transaction_create e (debt_created e b (length (debtors st)))
      (st\<lparr>debtors := debtors st @ [D]\<rparr>) = Inl err
    \<longrightarrow> post_debtors e b st =
          (st\<lparr>debtors := debtors st @ [D],
              console := console st @ [TransactionError],
              clients := (clients st)(b_client b \<mapsto> c\<lparr>debt := v\<rparr>)\<rparr>,
           \<lparr>code = 201, body = DebtorJson (length (debtors st)) D (Some (c\<lparr>debt := v\<rparr>))\<rparr>))
   \<and> (payment pb = JNumber (Num p) \<and> p \<noteq> num 0 \<and> findOne_active st i = Some d \<and>
      clients st (client d) = Some c \<and>
      js_max (Num (num 0)) (js_sub (Num (currentDebt d)) (Num p)) = Num cd' \<and>
      js_add (Num (totalPaid d)) (Num p) = Num tp \<and>
      js_sub (Num (debt c)) (Num p) = Num v' \<and>
      P = d\<lparr>currentDebt := cd', totalPaid := tp,
            lastPayment := Some \<lparr>lp_amount = p, lp_date = now e\<rparr>,
            nextPayment := (case pay_next pb of
                              None \<Rightarrow> nextPayment d
                            | Some (a, due) \<Rightarrow> \<lparr>np_amount = Some (or0 a), np_dueDate = due\<rparr>)\<rparr> \<and>
      Transaction_create e (debt_payment e p i P) (save_debtor i P st) = Inl err
    \<longrightarrow> post_payment e i pb st =
          (st\<lparr>debtors := (debtors st)[i := P],
              console := console st @ [TransactionError],
              clients := (clients st)(client d \<mapsto> c\<lparr>debt := v'\<rparr>)\<rparr>,
           \<lparr>code = 200, body = DebtorJson i P (Some (c\<lparr>debt := v'\<rparr>))\<rparr>))"
proof (intro conjI impI)
  assume h: "errors_empty b \<and> clients st (b_client b) = Some c \<and>
    cast e (b_currentDebt b) = Num cd \<and>
    (case b_initialDebt b of None \<Rightarrow> Num cd | Some x \<Rightarrow> cast e x) = Num idebt \<and>
    (case b_currentDebt b of
       BNum n \<Rightarrow> js_add (Num (debt c)) (Num n)
     | BStr s \<Rightarrow> if s = [] then js_add (Num (debt c)) (Num (num 0))
                 else to_number e (to_string e (debt c) @ s)) = Num v \<and>
    D = \<lparr>client = b_client b, currentDebt = cd, initialDebt = idebt, initialDebtDate = now e,
         totalPaid = num 0, lastPayment = None,
         nextPayment = (case b_nextPayment b of
                          None \<Rightarrow> \<lparr>np_amount = None, np_dueDate = None\<rparr> | Some np \<Rightarrow> np),
         status = ''pending'', isDeleted = False, deletedAt = None\<rparr> \<and>
    Transaction_create e (debt_created e b (length (debtors st)))
      (st\<lparr>debtors := debtors st @ [D]\<rparr>) = Inl err"
  then have nd: "new_debtor e b = Some D"
    by (simp add: new_debtor_def split: option.splits)
  from h have pb: "plus_body e (debt c) (b_currentDebt b) = Num v"
    by (cases "b_currentDebt b") (auto split: if_splits)
  from h have "Transaction_create e (debt_created e b (length (debtors st)))
      (st\<lparr>debtors := debtors st @ [D]\<rparr>) = Inl err"
    by blast
  then have tc: "try_create e (debt_created e b (length (debtors st)))
      (st\<lparr>debtors := debtors st @ [D]\<rparr>) =
        st\<lparr>debtors := debtors st @ [D], console := console st @ [TransactionError]\<rparr>"
    by (simp add: try_create_Inl)
  from h have cl: "errors_empty b" "clients st (b_client b) = Some c" "client D = b_client b"
    by simp_all
  from cl nd pb show "post_debtors e b st =
          (st\<lparr>debtors := debtors st @ [D],
              console := console st @ [TransactionError],
              clients := (clients st)(b_client b \<mapsto> c\<lparr>debt := v\<rparr>)\<rparr>,
           \<lparr>code = 201, body = DebtorJson (length (debtors st)) D (Some (c\<lparr>debt := v\<rparr>))\<rparr>)"
    by (simp add: post_debtors_def Let_def tc populate_def save_client_def)
next
  assume h: "payment pb = JNumber (Num p) \<and> p \<noteq> num 0 \<and> findOne_active st i = Some d \<and>
      clients st (client d) = Some c \<and>
      js_max (Num (num 0)) (js_sub (Num (currentDebt d)) (Num p)) = Num cd' \<and>
      js_add (Num (totalPaid d)) (Num p) = Num tp \<and>
      js_sub (Num (debt c)) (Num p) = Num v' \<and>
      P = d\<lparr>currentDebt := cd', totalPaid := tp,
            lastPayment := Some \<lparr>lp_amount = p, lp_date = now e\<rparr>,
            nextPayment := (case pay_next pb of
                              None \<Rightarrow> nextPayment d
                            | Some (a, due) \<Rightarrow> \<lparr>np_amount = Some (or0 a), np_dueDate = due\<rparr>)\<rparr> \<and>
      Transaction_create e (debt_payment e p i P) (save_debtor i P st) = Inl err"
  then have i: "i < length (debtors st)"
    by (auto simp: findOne_active_def split: if_splits)
  from h have pd: "paid e pb p d = Some P"
    by (simp add: paid_Some)
  from h have cl: "client P = client d"
    by simp
  from h have "Transaction_create e (debt_payment e p i P) (save_debtor i P st) = Inl err"
    by blast
  then have tc: "try_create e (debt_payment e p i P) (save_debtor i P st) =
        st\<lparr>debtors := (debtors st)[i := P], console := console st @ [TransactionError]\<rparr>"
    by (simp add: try_create_Inl save_debtor_def)
  from h have f: "payment pb = JNumber (Num p)" "p \<noteq> num 0" "findOne_active st i = Some d"
    "clients st (client d) = Some c" "js_sub (Num (debt c)) (Num p) = Num v'"
    by simp_all
  from f i pd cl show "post_payment e i pb st =
          (st\<lparr>debtors := (debtors st)[i := P],
              console := console st @ [TransactionError],
              clients := (clients st)(client d \<mapsto> c\<lparr>debt := v'\<rparr>)\<rparr>,
           \<lparr>code = 200, body = DebtorJson i P (Some (c\<lparr>debt := v'\<rparr>))\<rparr>)"
    by (simp add: post_payment_def Let_def tc populate_def save_client_def)
qed

text \<open>
  The database refuses the insert: for a new debt of 1000, for the same debt with
  \<open>currentDebt\<close> sent as the string \<open>"1000"\<close> (the client's \<open>debt\<close> of 850 then becomes
  8501000), and for a payment of 400.
\<close>

theorem ledger_failure_is_swallowed_witness:
  "Transaction_create env_down (debt_created env_down borrow (length (debtors shop)))
      (shop\<lparr>debtors := debtors shop @ [debt_c]\<rparr>) = Inl WriteError
   \<and> post_debtors env_down borrow shop =
        (shop\<lparr>debtors := [debt_a, debt_b, debt_c], console := [TransactionError],
              clients := [7 \<mapsto> \<lparr>debt = num 1850\<rparr>]\<rparr>,
         \<lparr>code = 201, body = DebtorJson 2 debt_c (Some \<lparr>debt = num 1850\<rparr>)\<rparr>)
   \<and> Transaction_create env_down (debt_created env_down borrow_str (length (debtors shop)))
      (shop\<lparr>debtors := debtors shop @ [debt_c]\<rparr>) = Inl WriteError
   \<and> post_debtors env_down borrow_str shop =
        (shop\<lparr>debtors := [debt_a, debt_b, debt_c], console := [TransactionError],
              clients := [7 \<mapsto> \<lparr>debt = num 8501000\<rparr>]\<rparr>,
         \<lparr>code = 201, body = DebtorJson 2 debt_c (Some \<lparr>debt = num 8501000\<rparr>)\<rparr>)
   \<and> Transaction_create env_down (debt_payment env_down (num 400) 0 debt_a_paid)
        (save_debtor 0 debt_a_paid shop) = Inl WriteError
   \<and> post_payment env_down 0 pay_400 shop =
        (shop\<lparr>debtors := [debt_a_paid, debt_b], console := [TransactionError],
              clients := [7 \<mapsto> \<lparr>debt = num 450\<rparr>]\<rparr>,
         \<lparr>code = 200, body = DebtorJson 0 debt_a_paid (Some \<lparr>debt = num 450\<rparr>)\<rparr>)
   \<and> currentDebt debt_a_paid = num 200 \<and> totalPaid debt_a_paid = num 800
   \<and> transactions (fst (post_debtors env_down borrow shop)) = transactions shop
   \<and> transactions (fst (post_payment env_down 0 pay_400 shop)) = transactions shop"
proof -
  have down: "\<not> insert_ok env_down" "now env_down = today"
    "to_number env_down ''1000'' = Num (num 1000)"
    "to_number env_down (to_string env_down (num 850) @ ''1000'') = Num (num 8501000)"
    by (simp_all add: env_down_def env_ok_def)
  have f1: "Transaction_create env_down (debt_created env_down borrow (length (debtors shop)))
      (shop\<lparr>debtors := debtors shop @ [debt_c]\<rparr>) = Inl WriteError"
    by (simp add: Transaction_create_def schema_valid_debt_created borrow_def down)
  have f2: "Transaction_create env_down
      (debt_created env_down borrow_str (length (debtors shop)))
      (shop\<lparr>debtors := debtors shop @ [debt_c]\<rparr>) = Inl WriteError"
    by (simp add: Transaction_create_def schema_valid_debt_created borrow_str_def
          borrow_def down)
  have f3: "Transaction_create env_down (debt_payment env_down (num 400) 0 debt_a_paid)
        (save_debtor 0 debt_a_paid shop) = Inl WriteError"
    by (simp add: Transaction_create_def schema_valid_debt_payment down)
  have c1: "post_debtors env_down borrow shop =
        (shop\<lparr>debtors := [debt_a, debt_b, debt_c], console := [TransactionError],
              clients := [7 \<mapsto> \<lparr>debt = num 1850\<rparr>]\<rparr>,
         \<lparr>code = 201, body = DebtorJson 2 debt_c (Some \<lparr>debt = num 1850\<rparr>)\<rparr>)"
    using ledger_failure_is_swallowed
      [where e = env_down and b = borrow and st = shop and c = "\<lparr>debt = num 850\<rparr>"
         and cd = "num 1000" and idebt = "num 1000" and v = "num 1850" and D = debt_c
         and err = WriteError] f1
    by (simp add: borrow_def shop_def debt_c_def down)
  have c2: "post_debtors env_down borrow_str shop =
        (shop\<lparr>debtors := [debt_a, debt_b, debt_c], console := [TransactionError],
              clients := [7 \<mapsto> \<lparr>debt = num 8501000\<rparr>]\<rparr>,
         \<lparr>code = 201, body = DebtorJson 2 debt_c (Some \<lparr>debt = num 8501000\<rparr>)\<rparr>)"
    using ledger_failure_is_swallowed
      [where e = env_down and b = borrow_str and st = shop and c = "\<lparr>debt = num 850\<rparr>"
         and cd = "num 1000" and idebt = "num 1000" and v = "num 8501000" and D = debt_c
         and err = WriteError] f2
    by (simp add: borrow_str_def borrow_def shop_def debt_c_def down)
  have c3: "post_payment env_down 0 pay_400 shop =
        (shop\<lparr>debtors := [debt_a_paid, debt_b], console := [TransactionError],
              clients := [7 \<mapsto> \<lparr>debt = num 450\<rparr>]\<rparr>,
         \<lparr>code = 200, body = DebtorJson 0 debt_a_paid (Some \<lparr>debt = num 450\<rparr>)\<rparr>)"
    using ledger_failure_is_swallowed
      [where e = env_down and pb = pay_400 and st = shop and c = "\<lparr>debt = num 850\<rparr>"
         and p = "num 400" and i = 0 and d = debt_a and cd' = "num 200" and tp = "num 800"
         and v' = "num 450" and P = debt_a_paid and err = WriteError] f3
    by (simp add: pay_400_def shop_def debt_a_paid_def debt_a_def findOne_active_def down)
  have v: "currentDebt debt_a_paid = num 200" "totalPaid debt_a_paid = num 800"
    by (simp_all add: debt_a_paid_def)
  from f1 c1 f2 c2 f3 c3 v show ?thesis
    by simp
qed

subsection \<open>Creating a debt\<close>

text \<open>
  C5, as amended. A \<^verbatim>\<open>POST /debtors\<close> request that passes validation, with a
  \<open>currentDebt\<close> that is a JSON number and not negative (and an \<open>initialDebt\<close> that, when
  supplied, casts to a number): when the client does not exist the answer is 404 and the
  store is unchanged. Otherwise the answer is 201, a debtor is added with \<open>totalPaid = 0\<close>
  and with \<open>initialDebt\<close> defaulting to \<open>currentDebt\<close>, and the client's \<open>debt\<close> grows by
  \<open>currentDebt\<close>, to the double that the sum rounds to. A \<open>debt-created\<close> entry of that
  amount is appended to the ledger when the insert is accepted; when it is not, the ledger
  is left as it was.
\<close>

theorem create_debt_effect:
  assumes "errors_empty b"
    and "b_currentDebt b = BNum (Fin x)" and "\<not> lt (Fin x) (num 0)"
    and "(case b_initialDebt b of None \<Rightarrow> Num (Fin x) | Some y \<Rightarrow> cast e y) = Num idebt"
    and "D = \<lparr>client = b_client b, currentDebt = Fin x, initialDebt = idebt,
              initialDebtDate = now e, totalPaid = num 0, lastPayment = None,
              nextPayment = (case b_nextPayment b of
                               None \<Rightarrow> \<lparr>np_amount = None, np_dueDate = None\<rparr>
                             | Some np \<Rightarrow> np),
              status = ''pending'', isDeleted = False, deletedAt = None\<rparr>"
  shows "(clients st (b_client b) = None \<longrightarrow>
            post_debtors e b st = (st, \<lparr>code = 404, body = Message ''Mijoz topilmadi''\<rparr>))
   \<and> (\<forall>c. clients st (b_client b) = Some c \<longrightarrow>
        (\<exists>st' c'. post_debtors e b st =
                 (st', \<lparr>code = 201, body = DebtorJson (length (debtors st)) D (Some c')\<rparr>)
           \<and> debtors st' = debtors st @ [D]
           \<and> totalPaid D = num 0
           \<and> (b_initialDebt b = None \<longrightarrow> initialDebt D = currentDebt D)
           \<and> clients st' = (clients st)(b_client b \<mapsto> c')
           \<and> Num (debt c') = js_add (Num (debt c)) (Num (Fin x))
           \<and> (insert_ok e \<longrightarrow>
                (\<exists>t. transactions st' = transactions st @ [t]
                  \<and> tx_type t = ''debt-created'' \<and> amount t = Fin x
                  \<and> paymentType t = ''debt''
                  \<and> relatedModel t = Some ''Debtor''
                  \<and> relatedId t = Some (length (debtors st))
                  \<and> tx_client t = Some (b_client b)))
           \<and> (\<not> insert_ok e \<longrightarrow> transactions st' = transactions st)))"
proof (intro conjI impI allI)
  assume "clients st (b_client b) = None"
  with assms(1) show "post_debtors e b st =
      (st, \<lparr>code = 404, body = Message ''Mijoz topilmadi''\<rparr>)"
    by (simp add: post_debtors_def)
next
  fix c
  assume c: "clients st (b_client b) = Some c"
  define st2 where "st2 = try_create e (debt_created e b (length (debtors st)))
                            (st\<lparr>debtors := debtors st @ [D]\<rparr>)"
  obtain v where v: "js_add (Num (debt c)) (Num (Fin x)) = Num v"
    using js_add_Fin [of "debt c" x] by (cases "js_add (Num (debt c)) (Num (Fin x))") auto
  define st3 where "st3 = save_client (b_client b) c v st2"
  have nd: "new_debtor e b = Some D"
    using assms(2,4) by (simp add: new_debtor_def assms(5) split: option.splits)
  have pb: "plus_body e (debt c) (b_currentDebt b) = Num v"
    using assms(2) v by simp
  have c2: "clients st2 = clients st" and d2: "debtors st2 = debtors st @ [D]"
    by (simp_all add: st2_def)
  have cD: "client D = b_client b"
    by (simp add: assms(5))
  have run: "post_debtors e b st =
      (st3, \<lparr>code = 201, body = DebtorJson (length (debtors st)) D (Some (c\<lparr>debt := v\<rparr>))\<rparr>)"
    using assms(1) c nd pb c2 d2 cD
    by (simp add: post_debtors_def Let_def populate_def save_client_def st3_def
          flip: st2_def)
  have valid: "schema_valid (debt_created e b (length (debtors st)))"
    using assms(2,3) by (simp add: schema_valid_debt_created)
  have tx: "transactions st3 =
      (if insert_ok e
       then transactions st @
              [\<lparr>tid = next_tid st, tx_type = ''debt-created'', amount = Fin x,
                paymentType = ''debt'', relatedModel = Some ''Debtor'',
                relatedId = Some (length (debtors st)), tx_client = Some (b_client b),
                createdBy = user e, createdAt = now e, tx_isDeleted = False\<rparr>]
       else transactions st)"
    using assms(2) valid
    by (simp add: st3_def save_client_def st2_def try_create_transactions)
       (simp add: debt_created_def)
  have i: "b_initialDebt b = None \<longrightarrow> initialDebt D = currentDebt D"
    using assms(4) by (auto simp: assms(5))
  show "\<exists>st' c'. post_debtors e b st =
                 (st', \<lparr>code = 201, body = DebtorJson (length (debtors st)) D (Some c')\<rparr>)
           \<and> debtors st' = debtors st @ [D]
           \<and> totalPaid D = num 0
           \<and> (b_initialDebt b = None \<longrightarrow> initialDebt D = currentDebt D)
           \<and> clients st' = (clients st)(b_client b \<mapsto> c')
           \<and> Num (debt c') = js_add (Num (debt c)) (Num (Fin x))
           \<and> (insert_ok e \<longrightarrow>
                (\<exists>t. transactions st' = transactions st @ [t]
                  \<and> tx_type t = ''debt-created'' \<and> amount t = Fin x
                  \<and> paymentType t = ''debt''
                  \<and> relatedModel t = Some ''Debtor''
                  \<and> relatedId t = Some (length (debtors st))
                  \<and> tx_client t = Some (b_client b)))
           \<and> (\<not> insert_ok e \<longrightarrow> transactions st' = transactions st)"
    using run v tx i c2 d2
    by (intro exI [of _ st3] exI [of _ "c\<lparr>debt := v\<rparr>"])
       (simp add: st3_def save_client_def assms(5))
qed

text \<open>
  A new debt of 1000 for client 7, whose \<open>debt\<close> goes from 850 to 1850, with its entry in
  the ledger; and the same request for a client 8 that does not exist.
\<close>

theorem create_debt_effect_witness:
  "errors_empty borrow \<and> b_currentDebt borrow = BNum (num 1000) \<and> \<not> lt (num 1000) (num 0)
   \<and> b_initialDebt borrow = None
   \<and> clients shop (b_client borrow) = Some \<lparr>debt = num 850\<rparr> \<and> insert_ok env_ok
   \<and> (\<exists>st' t. post_debtors env_ok borrow shop =
                 (st', \<lparr>code = 201, body = DebtorJson 2 debt_c (Some \<lparr>debt = num 1850\<rparr>)\<rparr>)
         \<and> debtors st' = [debt_a, debt_b, debt_c]
         \<and> totalPaid debt_c = num 0
         \<and> initialDebt debt_c = num 1000
         \<and> clients st' = [7 \<mapsto> \<lparr>debt = num 1850\<rparr>]
         \<and> transactions st' = transactions shop @ [t]
         \<and> tx_type t = ''debt-created'' \<and> amount t = num 1000 \<and> relatedId t = Some 2)
   \<and> clients shop 8 = None
   \<and> post_debtors env_ok (borrow\<lparr>b_client := 8\<rparr>) shop =
        (shop, \<lparr>code = 404, body = Message ''Mijoz topilmadi''\<rparr>)"
proof -
  have n: "num 1000 = Fin (Abs_double 1000)"
    using num_Fin [of 1000] by simp
  have a: "errors_empty borrow" "b_currentDebt borrow = BNum (num 1000)"
    "\<not> lt (num 1000) (num 0)" "b_initialDebt borrow = None"
    "clients shop (b_client borrow) = Some \<lparr>debt = num 850\<rparr>" "insert_ok env_ok"
    "clients shop 8 = None"
    by (simp_all add: borrow_def shop_def env_ok_def)
  have h: "b_currentDebt borrow = BNum (Fin (Abs_double 1000))"
    "\<not> lt (Fin (Abs_double 1000)) (num 0)"
    "(case b_initialDebt borrow of None \<Rightarrow> Num (Fin (Abs_double 1000))
        | Some y \<Rightarrow> cast env_ok y) = Num (num 1000)"
    "debt_c = \<lparr>client = b_client borrow, currentDebt = Fin (Abs_double 1000),
               initialDebt = num 1000, initialDebtDate = now env_ok, totalPaid = num 0,
               lastPayment = None,
               nextPayment = (case b_nextPayment borrow of
                                None \<Rightarrow> \<lparr>np_amount = None, np_dueDate = None\<rparr>
                              | Some np \<Rightarrow> np),
               status = ''pending'', isDeleted = False, deletedAt = None\<rparr>"
    using a(2,3) unfolding n [symmetric]
    by (simp_all add: borrow_def debt_c_def env_ok_def)
  have h8: "errors_empty (borrow\<lparr>b_client := 8\<rparr>)"
    "b_currentDebt (borrow\<lparr>b_client := 8\<rparr>) = BNum (Fin (Abs_double 1000))"
    "(case b_initialDebt (borrow\<lparr>b_client := 8\<rparr>) of
        None \<Rightarrow> Num (Fin (Abs_double 1000)) | Some y \<Rightarrow> cast env_ok y) = Num (num 1000)"
    "clients shop (b_client (borrow\<lparr>b_client := 8\<rparr>)) = None"
    using h(1) a(7) by (simp_all add: borrow_def n)
  from create_debt_effect [OF a(1) h, of shop] a(5,6)
  obtain st' c' t where r:
    "post_debtors env_ok borrow shop =
       (st', \<lparr>code = 201, body = DebtorJson (length (debtors shop)) debt_c (Some c')\<rparr>)"
    "debtors st' = debtors shop @ [debt_c]"
    "clients st' = (clients shop)(b_client borrow \<mapsto> c')"
    "Num (debt c') = js_add (Num (debt \<lparr>debt = num 850\<rparr>)) (Num (Fin (Abs_double 1000)))"
    "transactions st' = transactions shop @ [t]"
    "tx_type t = ''debt-created''" "amount t = Fin (Abs_double 1000)"
    "relatedId t = Some (length (debtors shop))"
    by auto
  from r(4) have "c' = \<lparr>debt = num 1850\<rparr>"
    unfolding n [symmetric] by (cases c') simp
  with r have d: "\<exists>st' t. post_debtors env_ok borrow shop =
                 (st', \<lparr>code = 201, body = DebtorJson 2 debt_c (Some \<lparr>debt = num 1850\<rparr>)\<rparr>)
         \<and> debtors st' = [debt_a, debt_b, debt_c]
         \<and> totalPaid debt_c = num 0
         \<and> initialDebt debt_c = num 1000
         \<and> clients st' = [7 \<mapsto> \<lparr>debt = num 1850\<rparr>]
         \<and> transactions st' = transactions shop @ [t]
         \<and> tx_type t = ''debt-created'' \<and> amount t = num 1000 \<and> relatedId t = Some 2"
    unfolding n [symmetric] by (simp add: borrow_def shop_def debt_c_def)
  from create_debt_effect [OF h8(1,2) h(2) h8(3) refl, of shop] h8(4)
  have e: "post_debtors env_ok (borrow\<lparr>b_client := 8\<rparr>) shop =
        (shop, \<lparr>code = 404, body = Message ''Mijoz topilmadi''\<rparr>)"
    by blast
  from a d e show ?thesis by blast
qed

text \<open>
  C5 as stated fails: here the request passes validation, the client exists and the answer
  is 201, yet no entry is appended to the ledger.
\<close>

theorem create_debt_without_ledger_entry:
  "errors_empty borrow \<and> clients shop (b_client borrow) = Some \<lparr>debt = num 850\<rparr>
   \<and> code (snd (post_debtors env_down borrow shop)) = 201
   \<and> debtors (fst (post_debtors env_down borrow shop)) = debtors shop @ [debt_c]
   \<and> clients (fst (post_debtors env_down borrow shop)) 7 = Some \<lparr>debt = num 1850\<rparr>
   \<and> transactions (fst (post_debtors env_down borrow shop)) = transactions shop"
  by (simp add: post_debtors_def new_debtor_def Let_def try_create_transactions
        schema_valid_debt_created save_client_def borrow_def shop_def debt_c_def
        env_down_def env_ok_def)

subsection \<open>The running total of payments\<close>

text \<open>
  C6, as amended. What each operation does to the \<open>totalPaid\<close> of the debtors, position by
  position: creating a debt leaves the existing ones as they are and starts the new one at 0;
  a payment that is not negative lowers none of them; deleting a debt leaves them as they are;
  an edit whose body has no \<open>totalPaid\<close> leaves them as they are, and an edit whose body has
  \<open>totalPaid = v\<close> sets the edited debtor's \<open>totalPaid\<close> to \<open>v\<close>.
\<close>

theorem totalPaid_by_operation:
  "(map totalPaid (debtors (fst (post_debtors e cb st))) = map totalPaid (debtors st)
      \<or> map totalPaid (debtors (fst (post_debtors e cb st)))
           = map totalPaid (debtors st) @ [num 0])
   \<and> ((\<forall>p. payment pb = JNumber (Num p) \<longrightarrow> \<not> lt p (num 0)) \<longrightarrow>
        list_all2 (\<lambda>old new. \<not> lt new old) (map totalPaid (debtors st))
          (map totalPaid (debtors (fst (post_payment e i pb st)))))
   \<and> map totalPaid (debtors (fst (delete_debtor e i st))) = map totalPaid (debtors st)
   \<and> (u_totalPaid u = None \<longrightarrow>
        map totalPaid (debtors (fst (patch_debtor e i u st))) = map totalPaid (debtors st))
   \<and> (\<forall>v d. u_totalPaid u = Some v \<and> findOne_active st i = Some d \<longrightarrow>
        map totalPaid (debtors (fst (patch_debtor e i u st)))
          = (map totalPaid (debtors st))[i := v])"
proof (intro conjI impI allI)
  show "map totalPaid (debtors (fst (post_debtors e cb st))) = map totalPaid (debtors st)
      \<or> map totalPaid (debtors (fst (post_debtors e cb st)))
           = map totalPaid (debtors st) @ [num 0]"
    by (auto simp: post_debtors_def Let_def new_debtor_def save_client_def
          split: option.splits jsnum.splits)
next
  assume nonneg: "\<forall>p. payment pb = JNumber (Num p) \<longrightarrow> \<not> lt p (num 0)"
  show "list_all2 (\<lambda>old new. \<not> lt new old) (map totalPaid (debtors st))
          (map totalPaid (debtors (fst (post_payment e i pb st))))"
  proof (cases "\<exists>p d d'. payment pb = JNumber (Num p) \<and> p \<noteq> num 0
                  \<and> findOne_active st i = Some d \<and> paid e pb p d = Some d'")
    case True
    then obtain p d d' where h: "payment pb = JNumber (Num p)" "p \<noteq> num 0"
      "findOne_active st i = Some d" "paid e pb p d = Some d'"
      by blast
    from h(3) have i: "i < length (debtors st)" "debtors st ! i = d"
      by (auto simp: findOne_active_def split: if_splits)
    from h(1) nonneg have p: "\<not> lt p (num 0)" by blast
    have "js_add (Num (totalPaid d)) (Num p) = Num (totalPaid d')"
      using paid_fields(3) [OF h(4)] by simp
    then have up: "\<not> lt (totalPaid d') (totalPaid d)"
      using p by (rule js_add_not_lower)
    have run: "debtors (fst (post_payment e i pb st)) = (debtors st)[i := d']"
      using h
      by (simp add: post_payment_def Let_def save_client_def payment_guard
            split: option.splits jsnum.splits)
    show ?thesis
      unfolding run using i up
      by (auto simp: list_all2_conv_all_nth nth_list_update)
  next
    case False
    then have "fst (post_payment e i pb st) = st"
      by (auto simp: post_payment_def payment_guard Let_def
            split: jsval.splits jsnum.splits option.splits if_splits)
    then show ?thesis
      by (simp add: list_all2_conv_all_nth)
  qed
next
  show "map totalPaid (debtors (fst (delete_debtor e i st))) = map totalPaid (debtors st)"
    by (auto simp: delete_debtor_def soft_delete_def Let_def save_client_def set_debt_def
          findOne_active_def map_update map_update_same
          split: option.splits if_splits jsnum.splits)
next
  assume "u_totalPaid u = None"
  then show "map totalPaid (debtors (fst (patch_debtor e i u st))) = map totalPaid (debtors st)"
    by (auto simp: patch_debtor_def Let_def set_debt_def findOne_active_def
          map_update map_update_same totalPaid_assign
          split: option.splits if_splits jsnum.splits)
next
  fix v d
  assume "u_totalPaid u = Some v \<and> findOne_active st i = Some d"
  then show "map totalPaid (debtors (fst (patch_debtor e i u st)))
          = (map totalPaid (debtors st))[i := v]"
    by (auto simp: patch_debtor_def Let_def set_debt_def map_update totalPaid_assign
          split: option.splits jsnum.splits)
qed

theorem totalPaid_by_operation_witness:
  "map totalPaid (debtors shop) = [num 400, num 0]
   \<and> map totalPaid (debtors (fst (post_debtors env_ok borrow shop)))
       = [num 400, num 0, num 0]
   \<and> payment pay_400 = JNumber (Num (num 400)) \<and> \<not> lt (num 400) (num 0)
   \<and> list_all2 (\<lambda>old new. \<not> lt new old) (map totalPaid (debtors shop))
         (map totalPaid (debtors (fst (post_payment env_ok 0 pay_400 shop))))
   \<and> map totalPaid (debtors (fst (post_payment env_ok 0 pay_400 shop))) = [num 800, num 0]
   \<and> map totalPaid (debtors (fst (delete_debtor env_ok 0 shop))) = [num 400, num 0]
   \<and> u_totalPaid raise_b = None
   \<and> map totalPaid (debtors (fst (patch_debtor env_ok 1 raise_b shop))) = [num 400, num 0]
   \<and> u_totalPaid lower_paid = Some (num 100) \<and> findOne_active shop 0 = Some debt_a
   \<and> map totalPaid (debtors (fst (patch_debtor env_ok 0 lower_paid shop)))
       = [num 100, num 0]"
proof -
  note t = totalPaid_by_operation
    [where st = shop and e = env_ok and cb = borrow and pb = pay_400 and i = 0]
  have s: "map totalPaid (debtors shop) = [num 400, num 0]"
    by (simp add: shop_def debt_a_def debt_b_def)
  have c: "map totalPaid (debtors (fst (post_debtors env_ok borrow shop)))
             = [num 400, num 0, num 0]"
    by (simp add: post_debtors_def Let_def borrow_def new_debtor_def save_client_def shop_def
          debt_a_def debt_b_def)
  have p: "payment pay_400 = JNumber (Num (num 400))" "\<not> lt (num 400) (num 0)"
    by (simp_all add: pay_400_def)
  then have "\<forall>p. payment pay_400 = JNumber (Num p) \<longrightarrow> \<not> lt p (num 0)"
    by simp
  with t have p': "list_all2 (\<lambda>old new. \<not> lt new old) (map totalPaid (debtors shop))
         (map totalPaid (debtors (fst (post_payment env_ok 0 pay_400 shop))))"
    by blast
  have q: "map totalPaid (debtors (fst (post_payment env_ok 0 pay_400 shop)))
             = [num 800, num 0]"
    by (simp add: post_payment_def Let_def pay_400_def paid_def findOne_active_def
          save_client_def shop_def debt_a_def debt_b_def)
  from t have d: "map totalPaid (debtors (fst (delete_debtor env_ok 0 shop)))
                    = [num 400, num 0]"
    using s by simp
  have u: "u_totalPaid raise_b = None" "u_totalPaid lower_paid = Some (num 100)"
    by (simp_all add: raise_b_def lower_paid_def)
  from totalPaid_by_operation [where st = shop and e = env_ok and u = raise_b and i = 1] u(1)
  have r: "map totalPaid (debtors (fst (patch_debtor env_ok 1 raise_b shop)))
             = [num 400, num 0]"
    using s by simp
  have f: "findOne_active shop 0 = Some debt_a"
    by (simp add: findOne_active_def shop_def debt_a_def)
  from totalPaid_by_operation [where st = shop and e = env_ok and u = lower_paid and i = 0]
    u(2) f
  have l: "map totalPaid (debtors (fst (patch_debtor env_ok 0 lower_paid shop)))
             = [num 100, num 0]"
    using s by simp
  from s c p p' q d u r f l show ?thesis by simp
qed

text \<open>
  C6 as stated fails: an edit with \<open>totalPaid = 100\<close> takes the first debtor's \<open>totalPaid\<close>
  from 400 down to 100.
\<close>

theorem edit_lowers_totalPaid:
  "findOne_active shop 0 = Some debt_a \<and> totalPaid debt_a = num 400
   \<and> code (snd (patch_debtor env_ok 0 lower_paid shop)) = 200
   \<and> totalPaid (debtors (fst (patch_debtor env_ok 0 lower_paid shop)) ! 0) = num 100
   \<and> lt (num 100) (num 400)"
  by (simp add: patch_debtor_def findOne_active_def Let_def set_debt_def find_active_of_def
        assign_def lower_paid_def shop_def debt_a_def debt_b_def split: option.splits)

section \<open>Properties of the transaction router\<close>

subsection \<open>Auxiliary facts\<close>


lemma clients_create_entry [simp]: "clients (fst (create_entry e f msg st)) = clients st"
  by (auto simp: create_entry_def Transaction_create_def Let_def
        split: sum.splits option.splits jsnum.splits if_splits)

lemma code_create_entry: "code (snd (create_entry e f msg st)) \<noteq> 400"
  by (simp add: create_entry_def split: sum.splits prod.splits)

lemma cash_in_not_400: "\<not> lt (or0 (c_amount b)) (num 0) \<Longrightarrow> code (snd (cash_in e b st)) \<noteq> 400"
  by (simp add: cash_in_def Let_def code_create_entry split: option.splits jsnum.splits)

lemma findByIdAndDelete_eq:
  "findByIdAndDelete i ts =
     (find (\<lambda>t. tid t = i) ts,
      case find (\<lambda>t. tid t = i) ts of None \<Rightarrow> ts | Some t \<Rightarrow> remove1 t ts)"
proof (induction ts)
  case Nil
  then show ?case by simp
next
  case (Cons a ts)
  then show ?case
    by (auto split: option.splits dest: find_Some_iff [THEN iffD1])
qed

lemma findByIdAndDelete_gone:
  "distinct (map tid ts) \<Longrightarrow> i \<notin> tid ` set (snd (findByIdAndDelete i ts))"
  by (induction ts) (auto split: prod.splits)

text \<open>The rows of the \<^verbatim>\<open>$group\<close> stage: their keys, and the amounts under a key.\<close>

lemma keys_add_to_group:
  "map fst (add_to_group k a gs) =
     (if k \<in> set (map fst gs) then map fst gs else map fst gs @ [k])"
  by (induction gs) (auto split: if_splits)

lemma distinct_add_to_group:
  "distinct (map fst gs) \<Longrightarrow> distinct (map fst (add_to_group k a gs))"
  by (simp add: keys_add_to_group)

lemma map_of_add_to_group:
  "map_of (add_to_group k a gs) k' =
     (if k' = k then Some ((case map_of gs k of None \<Rightarrow> [] | Some acc \<Rightarrow> acc) @ [a])
      else map_of gs k')"
  by (induction gs) auto

lemma distinct_group_rows:
  "distinct (map fst gs) \<Longrightarrow> distinct (map fst (group_rows rows gs))"
  by (induction rows gs rule: group_rows.induct) (simp_all add: distinct_add_to_group)

lemma map_of_group_rows:
  "map_of (group_rows rows gs) k =
     (case (map_of gs k, map (\<lambda>(m, ty, a). a) (filter (\<lambda>(m, ty, a). (m, ty) = k) rows)) of
        (None, []) \<Rightarrow> None
      | (None, a # new) \<Rightarrow> Some (a # new)
      | (Some acc, new) \<Rightarrow> Some (acc @ new))"
proof (induction rows gs rule: group_rows.induct)
  case (1 gs)
  then show ?case by (simp split: option.splits)
next
  case (2 m ty a rows gs)
  then show ?case
    by (auto simp: map_of_add_to_group split: option.splits list.splits)
qed

lemma months_group_rows:
  "\<forall>k \<in> set (map fst gs). 1 \<le> fst k \<Longrightarrow> \<forall>r \<in> set rows. 1 \<le> fst r \<Longrightarrow>
   \<forall>k \<in> set (map fst (group_rows rows gs)). 1 \<le> fst k"
  by (induction rows gs rule: group_rows.induct) (auto simp: keys_add_to_group split: if_splits)

lemma length_fill [simp]: "length (fill ty gs arr) = length arr"
  by (induction ty gs arr rule: fill.induct) auto

lemma nth_fill:
  "distinct (map fst gs) \<Longrightarrow> \<forall>k \<in> set (map fst gs). 1 \<le> fst k \<Longrightarrow> j < length arr \<Longrightarrow>
   fill ty gs arr ! j = (case map_of gs (Suc j, ty) of None \<Rightarrow> arr ! j | Some s \<Rightarrow> s)"
proof (induction ty gs arr rule: fill.induct)
  case (1 ty arr)
  then show ?case by simp
next
  case (2 ty m ty' tot items arr)
  have m: "1 \<le> m" using "2.prems"(2) by simp
  have none: "(m, ty') = (Suc j, ty) \<Longrightarrow> map_of items (Suc j, ty) = None"
    using "2.prems"(1) by (auto simp: map_of_eq_None_iff)
  show ?case
  proof (cases "(m, ty') = (Suc j, ty)")
    case True
    with 2 none show ?thesis by simp
  next
    case False
    with m have "\<not> (ty' = ty \<and> m - 1 = j)" by auto
    with 2 False show ?thesis by (auto simp: nth_list_update split: option.splits)
  qed
qed

lemma projected_amounts:
  "map (\<lambda>(m, ty, a). a) (filter (\<lambda>(m', ty', a). (m', ty') = (m, ty))
       (map (\<lambda>t. (month_of (createdAt t), tx_type t, amount t)) xs))
   = map amount (filter (\<lambda>t. month_of (createdAt t) = m \<and> tx_type t = ty) xs)"
  by (induction xs) auto

lemma keys_aggregate:
  "map fst (aggregate e year ts) =
     map fst (group_rows (map (\<lambda>t. (month_of (createdAt t), tx_type t, amount t))
                           (filter (\<lambda>t. utc_year (createdAt t) = year) ts)) [])"
  by (simp add: aggregate_def Let_def o_def split_def)

lemma distinct_aggregate: "distinct (map fst (aggregate e year ts))"
  unfolding keys_aggregate by (rule distinct_group_rows) simp

lemma months_aggregate: "\<forall>k \<in> set (map fst (aggregate e year ts)). 1 \<le> fst k"
  unfolding keys_aggregate by (rule months_group_rows) (auto simp: month_of_def)

lemma map_of_totals:
  "map_of (map (\<lambda>(k, amounts). (k, f amounts)) gs) k = map_option f (map_of gs k)"
  by (induction gs) auto

lemma map_of_aggregate:
  "map_of (aggregate e year ts) (m, ty) =
     (case map amount (filter (\<lambda>t. utc_year (createdAt t) = year
                                 \<and> month_of (createdAt t) = m \<and> tx_type t = ty) ts) of
        [] \<Rightarrow> None
      | a # amounts \<Rightarrow> Some (sum_acc e (a # amounts)))"
proof -
  let ?rows = "map (\<lambda>t. (month_of (createdAt t), tx_type t, amount t))
                 (filter (\<lambda>t. utc_year (createdAt t) = year) ts)"
  have "map_of (aggregate e year ts) (m, ty) =
          map_option (sum_acc e) (map_of (group_rows ?rows []) (m, ty))"
    by (simp add: aggregate_def Let_def map_of_totals)
  also have "map_of (group_rows ?rows []) (m, ty) =
      (case map amount (filter (\<lambda>t. month_of (createdAt t) = m \<and> tx_type t = ty)
                          (filter (\<lambda>t. utc_year (createdAt t) = year) ts)) of
         [] \<Rightarrow> None | a # amounts \<Rightarrow> Some (a # amounts))"
    unfolding map_of_group_rows projected_amounts by simp
  also have "filter (\<lambda>t. month_of (createdAt t) = m \<and> tx_type t = ty)
               (filter (\<lambda>t. utc_year (createdAt t) = year) ts)
           = filter (\<lambda>t. utc_year (createdAt t) = year
                        \<and> month_of (createdAt t) = m \<and> tx_type t = ty) ts"
    by (simp only: filter_filter)
  finally show ?thesis
    by (simp split: list.splits)
qed

lemma fill_aggregate:
  "fill ty (aggregate e year ts) (replicate 12 z) =
     map (\<lambda>j. case map amount (filter (\<lambda>t. utc_year (createdAt t) = year
                                         \<and> month_of (createdAt t) = Suc j \<and> tx_type t = ty) ts) of
                [] \<Rightarrow> z
              | a # amounts \<Rightarrow> sum_acc e (a # amounts))
       [0..<12]"
proof (rule nth_equalityI)
  show "length (fill ty (aggregate e year ts) (replicate 12 z)) =
        length (map (\<lambda>j. case map amount (filter (\<lambda>t. utc_year (createdAt t) = year
                 \<and> month_of (createdAt t) = Suc j \<and> tx_type t = ty) ts) of
                [] \<Rightarrow> z | a # amounts \<Rightarrow> sum_acc e (a # amounts)) [0..<12])"
    by simp
next
  fix j
  assume "j < length (fill ty (aggregate e year ts) (replicate 12 z))"
  then have j: "j < 12" by simp
  then have "fill ty (aggregate e year ts) (replicate 12 z) ! j =
      (case map_of (aggregate e year ts) (Suc j, ty) of None \<Rightarrow> z | Some s \<Rightarrow> s)"
    using nth_fill [OF distinct_aggregate months_aggregate,
                    where j = j and arr = "replicate 12 z" and ty = ty]
    by (simp split: option.splits)
  also have "\<dots> = (case map amount (filter (\<lambda>t. utc_year (createdAt t) = year
                 \<and> month_of (createdAt t) = Suc j \<and> tx_type t = ty) ts) of
                [] \<Rightarrow> z | a # amounts \<Rightarrow> sum_acc e (a # amounts))"
    unfolding map_of_aggregate by (simp split: list.splits)
  finally show "fill ty (aggregate e year ts) (replicate 12 z) ! j =
        map (\<lambda>j. case map amount (filter (\<lambda>t. utc_year (createdAt t) = year
                 \<and> month_of (createdAt t) = Suc j \<and> tx_type t = ty) ts) of
                [] \<Rightarrow> z | a # amounts \<Rightarrow> sum_acc e (a # amounts)) [0..<12] ! j"
    using j by simp
qed

lemma filter_flags:
  "filter (\<lambda>t. P (createdAt t) (tx_type t)) (map (\<lambda>t. t\<lparr>tx_isDeleted := f t\<rparr>) ts)
     = map (\<lambda>t. t\<lparr>tx_isDeleted := f t\<rparr>) (filter (\<lambda>t. P (createdAt t) (tx_type t)) ts)"
  by (induction ts) auto

subsection \<open>Cash-in and cash-out\<close>



subsection \<open>Deleting a transaction\<close>

text \<open>
  C8. \<^verbatim>\<open>DELETE /transactions/:id\<close> leaves every client (and every debtor) as it was. When
  a transaction with the id exists it is taken out of the collection (one document fewer; with
  unique ids, none with that id is left) and the answer is 200; when none exists the
  collection is unchanged and the answer is 404.
\<close>

theorem transaction_delete_is_hard_and_keeps_balances:
  "clients (fst (delete_transaction i st)) = clients st
   \<and> debtors (fst (delete_transaction i st)) = debtors st
   \<and> (\<forall>t. find (\<lambda>t. tid t = i) (transactions st) = Some t \<longrightarrow>
        delete_transaction i st =
          (st\<lparr>transactions := remove1 t (transactions st),
              console := console st @ [LoggedId i]\<rparr>,
           \<lparr>code = 200, body = Message ''Transaction o`chirildi''\<rparr>)
        \<and> length (transactions (fst (delete_transaction i st))) < length (transactions st))
   \<and> (find (\<lambda>t. tid t = i) (transactions st) = None \<longrightarrow>
        delete_transaction i st =
          (st\<lparr>console := console st @ [LoggedId i]\<rparr>,
           \<lparr>code = 404, body = Message ''Transaction not found''\<rparr>))
   \<and> (distinct (map tid (transactions st)) \<longrightarrow>
        i \<notin> tid ` set (transactions (fst (delete_transaction i st))))"
proof (intro conjI impI allI)
  show "clients (fst (delete_transaction i st)) = clients st"
    by (simp add: delete_transaction_def findByIdAndDelete_eq Let_def split: option.splits)
  show "debtors (fst (delete_transaction i st)) = debtors st"
    by (simp add: delete_transaction_def findByIdAndDelete_eq Let_def split: option.splits)
next
  fix t
  assume "find (\<lambda>t. tid t = i) (transactions st) = Some t"
  then show "delete_transaction i st =
          (st\<lparr>transactions := remove1 t (transactions st),
              console := console st @ [LoggedId i]\<rparr>,
           \<lparr>code = 200, body = Message ''Transaction o`chirildi''\<rparr>)"
    by (simp add: delete_transaction_def findByIdAndDelete_eq Let_def)
next
  fix t
  assume h: "find (\<lambda>t. tid t = i) (transactions st) = Some t"
  then have "t \<in> set (transactions st)"
    by (auto simp: find_Some_iff)
  with h show "length (transactions (fst (delete_transaction i st))) < length (transactions st)"
    by (simp add: delete_transaction_def findByIdAndDelete_eq Let_def length_remove1)
       (cases "transactions st", auto)
next
  assume "find (\<lambda>t. tid t = i) (transactions st) = None"
  then show "delete_transaction i st =
          (st\<lparr>console := console st @ [LoggedId i]\<rparr>,
           \<lparr>code = 404, body = Message ''Transaction not found''\<rparr>)"
    by (simp add: delete_transaction_def findByIdAndDelete_eq Let_def)
next
  assume "distinct (map tid (transactions st))"
  then have "i \<notin> tid ` set (snd (findByIdAndDelete i (transactions st)))"
    by (rule findByIdAndDelete_gone)
  then show "i \<notin> tid ` set (transactions (fst (delete_transaction i st)))"
    by (auto simp: delete_transaction_def Let_def split: prod.splits option.splits)
qed

text \<open>
  The cash-in of 50 is deleted from the ledger of the shop: client 7 keeps its \<open>debt\<close> of
  850. No transaction has the id 9.
\<close>

theorem transaction_delete_is_hard_and_keeps_balances_witness:
  "find (\<lambda>t. tid t = 1) (transactions shop) = Some (entry 1 ''cash-in'' (num 50) 24300 False)
   \<and> delete_transaction 1 shop =
        (shop\<lparr>transactions := [entry 0 ''cash-in'' (num 100) 24300 True,
                                entry 2 ''cash-out'' (num 30) 24302 False],
              console := [LoggedId 1]\<rparr>,
         \<lparr>code = 200, body = Message ''Transaction o`chirildi''\<rparr>)
   \<and> clients (fst (delete_transaction 1 shop)) = clients shop
   \<and> clients shop 7 = Some \<lparr>debt = num 850\<rparr>
   \<and> distinct (map tid (transactions shop))
   \<and> 1 \<notin> tid ` set (transactions (fst (delete_transaction 1 shop)))
   \<and> find (\<lambda>t. tid t = 9) (transactions shop) = None
   \<and> delete_transaction 9 shop =
        (shop\<lparr>console := [LoggedId 9]\<rparr>,
         \<lparr>code = 404, body = Message ''Transaction not found''\<rparr>)"
proof -
  have a: "find (\<lambda>t. tid t = 1) (transactions shop)
             = Some (entry 1 ''cash-in'' (num 50) 24300 False)"
    by (simp add: shop_def entry_def)
  have b: "find (\<lambda>t. tid t = 9) (transactions shop) = None"
    by (simp add: shop_def entry_def)
  have c: "distinct (map tid (transactions shop))"
    by (simp add: shop_def entry_def)
  have d: "clients shop 7 = Some \<lparr>debt = num 850\<rparr>"
    by (simp add: shop_def)
  note t1 = transaction_delete_is_hard_and_keeps_balances [of 1 shop]
  note t9 = transaction_delete_is_hard_and_keeps_balances [of 9 shop]
  from t1 a have 1: "delete_transaction 1 shop =
        (shop\<lparr>transactions := remove1 (entry 1 ''cash-in'' (num 50) 24300 False)
                                 (transactions shop),
              console := console shop @ [LoggedId 1]\<rparr>,
         \<lparr>code = 200, body = Message ''Transaction o`chirildi''\<rparr>)"
    by blast
  have 1: "delete_transaction 1 shop =
        (shop\<lparr>transactions := [entry 0 ''cash-in'' (num 100) 24300 True,
                                entry 2 ''cash-out'' (num 30) 24302 False],
              console := [LoggedId 1]\<rparr>,
         \<lparr>code = 200, body = Message ''Transaction o`chirildi''\<rparr>)"
    unfolding 1 by (simp add: shop_def entry_def)
  from t1 have 2: "clients (fst (delete_transaction 1 shop)) = clients shop"
    by blast
  from t1 c have 3: "1 \<notin> tid ` set (transactions (fst (delete_transaction 1 shop)))"
    by blast
  from t9 b have 4: "delete_transaction 9 shop =
        (shop\<lparr>console := [LoggedId 9]\<rparr>,
         \<lparr>code = 404, body = Message ''Transaction not found''\<rparr>)"
    by (simp add: shop_def)
  from a b c d 1 2 3 4 show ?thesis by blast
qed

subsection \<open>A payment of zero\<close>

text \<open>
  C9. \<^verbatim>\<open>POST /debtors/:id/payment\<close> answers 400 and leaves the store unchanged whenever the
  body's \<open>payment\<close> is falsy or is not a number; in particular for \<open>payment = 0\<close>, whereas
  cash-in does not answer 400 for an amount of 0.
\<close>

theorem zero_payment_rejected:
  "(falsy (payment b) \<or> typeof (payment b) \<noteq> ''number'' \<longrightarrow>
      post_payment e i b st =
        (st, \<lparr>code = 400, body = Message ''To'lov miqdori raqam bo'lishi kerak''\<rparr>))
   \<and> (payment b = JNumber (Num (num 0)) \<longrightarrow>
      post_payment e i b st =
        (st, \<lparr>code = 400, body = Message ''To'lov miqdori raqam bo'lishi kerak''\<rparr>))
   \<and> (c_amount cb = Num (num 0) \<longrightarrow> code (snd (cash_in e cb st)) \<noteq> 400)"
  by (auto simp: post_payment_def cash_in_not_400)

theorem zero_payment_rejected_witness:
  "falsy (payment pay_zero) \<and> payment pay_zero = JNumber (Num (num 0))
   \<and> post_payment env_ok 0 pay_zero shop =
        (shop, \<lparr>code = 400, body = Message ''To'lov miqdori raqam bo'lishi kerak''\<rparr>)
   \<and> c_amount zero_in = Num (num 0)
   \<and> code (snd (cash_in env_ok zero_in shop)) \<noteq> 400"
proof -
  have a: "falsy (payment pay_zero)" "payment pay_zero = JNumber (Num (num 0))"
    "c_amount zero_in = Num (num 0)"
    by (simp_all add: pay_zero_def zero_in_def)
  from zero_payment_rejected [of pay_zero env_ok 0 shop zero_in] a
  show ?thesis by blast
qed

subsection \<open>Monthly statistics\<close>

text \<open>
  C10. Slot \<open>j\<close> of the \<open>cashIn\<close> (\<open>cashOut\<close>) array of
  \<^verbatim>\<open>GET /transactions/statistics/monthly-transactions\<close> is what \<^verbatim>\<open>$sum\<close> makes of the
  amounts, in the order of the collection, of all the transactions of type \<open>cash-in\<close>
  (\<open>cash-out\<close>) created in month \<open>j + 1\<close> of the requested year, whatever their
  \<open>isDeleted\<close> flag, and 0 when there is none: changing the flags changes nothing in the
  answer. \<^verbatim>\<open>GET /transactions\<close> lists the transactions whose flag is not set.
\<close>

theorem monthly_statistics_count_deleted_entries:
  "monthly_transactions e q st =
     (st, \<lparr>code = 200,
           body = MonthlyJson
             (map (\<lambda>j. case map amount
                     (filter (\<lambda>t. utc_year (createdAt t) = requested_year e q
                                \<and> month_of (createdAt t) = Suc j \<and> tx_type t = ''cash-in'')
                        (transactions st)) of
                     [] \<Rightarrow> Num (num 0)
                   | a # amounts \<Rightarrow> sum_acc e (a # amounts)) [0..<12])
             (map (\<lambda>j. case map amount
                     (filter (\<lambda>t. utc_year (createdAt t) = requested_year e q
                                \<and> month_of (createdAt t) = Suc j \<and> tx_type t = ''cash-out'')
                        (transactions st)) of
                     [] \<Rightarrow> Num (num 0)
                   | a # amounts \<Rightarrow> sum_acc e (a # amounts)) [0..<12])\<rparr>)
   \<and> snd (monthly_transactions e q
            (st\<lparr>transactions := map (\<lambda>t. t\<lparr>tx_isDeleted := f t\<rparr>) (transactions st)\<rparr>))
       = snd (monthly_transactions e q st)
   \<and> get_transactions st =
       (st, \<lparr>code = 200,
             body = TransactionsJson
                      (map (\<lambda>t. (t, case tx_client t of None \<Rightarrow> None | Some c \<Rightarrow> clients st c))
                         (filter (\<lambda>t. \<not> tx_isDeleted t) (transactions st)))\<rparr>)"
proof (intro conjI)
  show 1: "monthly_transactions e q st =
     (st, \<lparr>code = 200,
           body = MonthlyJson
             (map (\<lambda>j. case map amount
                     (filter (\<lambda>t. utc_year (createdAt t) = requested_year e q
                                \<and> month_of (createdAt t) = Suc j \<and> tx_type t = ''cash-in'')
                        (transactions st)) of
                     [] \<Rightarrow> Num (num 0)
                   | a # amounts \<Rightarrow> sum_acc e (a # amounts)) [0..<12])
             (map (\<lambda>j. case map amount
                     (filter (\<lambda>t. utc_year (createdAt t) = requested_year e q
                                \<and> month_of (createdAt t) = Suc j \<and> tx_type t = ''cash-out'')
                        (transactions st)) of
                     [] \<Rightarrow> Num (num 0)
                   | a # amounts \<Rightarrow> sum_acc e (a # amounts)) [0..<12])\<rparr>)" for st
    by (simp only: monthly_transactions_def Let_def fill_aggregate)
  have amounts: "map amount (filter (\<lambda>t. P (createdAt t) (tx_type t))
                 (map (\<lambda>t. t\<lparr>tx_isDeleted := f t\<rparr>) ts))
            = map amount (filter (\<lambda>t. P (createdAt t) (tx_type t)) ts)" for P ts
    by (simp only: filter_flags) (simp add: o_def)
  show "snd (monthly_transactions e q
            (st\<lparr>transactions := map (\<lambda>t. t\<lparr>tx_isDeleted := f t\<rparr>) (transactions st)\<rparr>))
       = snd (monthly_transactions e q st)"
    unfolding 1
    by (simp add: amounts [where P = "\<lambda>d ty. utc_year d = requested_year e q
                                        \<and> month_of d = Suc j \<and> ty = c" for j c])
  show "get_transactions st =
       (st, \<lparr>code = 200,
             body = TransactionsJson
                      (map (\<lambda>t. (t, case tx_client t of None \<Rightarrow> None | Some c \<Rightarrow> clients st c))
                         (filter (\<lambda>t. \<not> tx_isDeleted t) (transactions st)))\<rparr>)"
    by (simp add: get_transactions_def)
qed

text \<open>
  The ledger of the shop for 2025: the deleted cash-in of 100 is counted in January's 150, and
  is absent from the list.
\<close>

theorem monthly_statistics_count_deleted_entries_witness:
  "tx_isDeleted (transactions shop ! 0) \<and> amount (transactions shop ! 0) = num 100
   \<and> snd (monthly_transactions env_ok (Some 2025) shop) =
        \<lparr>code = 200,
         body = MonthlyJson
                  [Num (num 150), Num (num 0), Num (num 0), Num (num 0), Num (num 0),
                   Num (num 0), Num (num 0), Num (num 0), Num (num 0), Num (num 0),
                   Num (num 0), Num (num 0)]
                  [Num (num 0), Num (num 0), Num (num 30), Num (num 0), Num (num 0),
                   Num (num 0), Num (num 0), Num (num 0), Num (num 0), Num (num 0),
                   Num (num 0), Num (num 0)]\<rparr>
   \<and> snd (get_transactions shop) =
        \<lparr>code = 200,
         body = TransactionsJson [(entry 1 ''cash-in'' (num 50) 24300 False, None),
                                  (entry 2 ''cash-out'' (num 30) 24302 False, None)]\<rparr>"
proof -
  have y: "requested_year env_ok (Some 2025) = 2025"
    by (simp add: requested_year_def)
  have u: "[0..<12] = [0, 1, 2, 3, 4, 5, 6, 7, 8, 9, 10, 11]"
    by (simp add: upt_rec)
  have s: "sum_acc env_ok [num 100, num 50] = Num (num 150)"
    "sum_acc env_ok [num 30] = Num (num 30)"
    by (simp_all add: env_ok_def)
  note t = monthly_statistics_count_deleted_entries [of env_ok "Some 2025" shop]
  from t have "snd (monthly_transactions env_ok (Some 2025) shop) =
        \<lparr>code = 200,
         body = MonthlyJson
                  [Num (num 150), Num (num 0), Num (num 0), Num (num 0), Num (num 0),
                   Num (num 0), Num (num 0), Num (num 0), Num (num 0), Num (num 0),
                   Num (num 0), Num (num 0)]
                  [Num (num 0), Num (num 0), Num (num 30), Num (num 0), Num (num 0),
                   Num (num 0), Num (num 0), Num (num 0), Num (num 0), Num (num 0),
                   Num (num 0), Num (num 0)]\<rparr>"
    by (simp add: y u s shop_def entry_def utc_year_def month_of_def)
  moreover from t have "snd (get_transactions shop) =
        \<lparr>code = 200,
         body = TransactionsJson [(entry 1 ''cash-in'' (num 50) 24300 False, None),
                                  (entry 2 ''cash-out'' (num 30) 24302 False, None)]\<rparr>"
    by (simp add: shop_def entry_def)
  moreover have "tx_isDeleted (transactions shop ! 0)"
    "amount (transactions shop ! 0) = num 100"
    by (simp_all add: shop_def entry_def)
  ultimately show ?thesis by simp
qed

end
